theory Spec2Isabelle
  imports Complex_Main "HOL-Library.AList" "HOL-Library.Sublist"
begin

section \<open>The security incident processor (function\_app.py)\<close>

text \<open>
  A shallow embedding of the incident pipeline of \<^verbatim>\<open>src/function_app.py\<close>: the
  processor class \<^verbatim>\<open>SentinelIncidentProcessor\<close> and the HTTP and MCP handlers built on
  it. Python values that come from JSON are a datatype, dictionaries are association
  lists in insertion order, every \<^verbatim>\<open>raise\<close> is the \<open>Inl\<close> branch of a sum, and the
  processor's attributes together with the Cosmos DB container are an explicit state that
  each operation returns updated. What the awaited services answer (the chat completion,
  the clock, \<^verbatim>\<open>uuid.uuid4()\<close>, the request body) is an argument of the operation that
  awaits it, so every theorem holds for whatever they answer.
\<close>

subsection \<open>JSON values and the Python operations the code applies to them\<close>

text \<open>
  A Python \<^verbatim>\<open>str\<close> is the list of its code points (each below 256 here); a float
  is finite (a rational), not-a-number or an infinity, as \<^verbatim>\<open>json.loads\<close> can return
  each of them.
\<close>

datatype pyfloat = Finite rat | NaN | Infinity bool

datatype json =
    JNull
  | JBool bool
  | JInt int
  | JFloat pyfloat
  | JStr string
  | JList "json list"
  | JObj "(string \<times> json) list"

type_synonym dict = "(string \<times> json) list"

text \<open>Exceptions, each with the text that \<^verbatim>\<open>str(e)\<close> gives.\<close>

datatype error =
    ValueError string
  | RuntimeError string
  | TypeError string
  | AttributeError string
  | ServiceError string
  | CosmosResourceNotFoundError string
  | CosmosResourceExistsError string

fun str_error :: "error \<Rightarrow> string" where
  "str_error (ValueError m) = m"
| "str_error (RuntimeError m) = m"
| "str_error (TypeError m) = m"
| "str_error (AttributeError m) = m"
| "str_error (ServiceError m) = m"
| "str_error (CosmosResourceNotFoundError m) = m"
| "str_error (CosmosResourceExistsError m) = m"

definition squote :: "string \<Rightarrow> string" where
  "squote s = CHR 0x27 # s @ [CHR 0x27]"

fun type_name :: "json \<Rightarrow> string" where
  "type_name JNull = ''NoneType''"
| "type_name (JBool b) = ''bool''"
| "type_name (JInt n) = ''int''"
| "type_name (JFloat x) = ''float''"
| "type_name (JStr s) = ''str''"
| "type_name (JList xs) = ''list''"
| "type_name (JObj d) = ''dict''"

text \<open>Truth value of a Python object, as \<^verbatim>\<open>or\<close>, \<^verbatim>\<open>not\<close> and \<^verbatim>\<open>if\<close> read it.\<close>

fun truthy :: "json \<Rightarrow> bool" where
  "truthy JNull = False"
| "truthy (JBool b) = b"
| "truthy (JInt n) = (n \<noteq> 0)"
| "truthy (JFloat x) = (x \<noteq> Finite 0)"
| "truthy (JStr s) = (s \<noteq> [])"
| "truthy (JList xs) = (xs \<noteq> [])"
| "truthy (JObj d) = (d \<noteq> [])"

definition py_or :: "json \<Rightarrow> json \<Rightarrow> json" where
  "py_or a b = (if truthy a then a else b)"

text \<open>\<^verbatim>\<open>d.get(k)\<close> and \<^verbatim>\<open>d.get(k, default)\<close> on a dictionary.\<close>

definition get :: "dict \<Rightarrow> string \<Rightarrow> json" where
  "get d k = (case map_of d k of None \<Rightarrow> JNull | Some v \<Rightarrow> v)"

definition get_default :: "dict \<Rightarrow> string \<Rightarrow> json \<Rightarrow> json" where
  "get_default d k dflt = (case map_of d k of None \<Rightarrow> dflt | Some v \<Rightarrow> v)"

text \<open>
  The same calls on a value that need not be a dictionary: anything else has no
  attribute \<^verbatim>\<open>get\<close>.
\<close>

definition no_attribute :: "json \<Rightarrow> string \<Rightarrow> error" where
  "no_attribute v a =
     AttributeError (squote (type_name v) @ '' object has no attribute '' @ squote a)"

fun py_get :: "json \<Rightarrow> string \<Rightarrow> error + json" where
  "py_get (JObj d) k = Inr (get d k)"
| "py_get v k = Inl (no_attribute v ''get'')"

fun py_get_default :: "json \<Rightarrow> string \<Rightarrow> json \<Rightarrow> error + json" where
  "py_get_default (JObj d) k dflt = Inr (get_default d k dflt)"
| "py_get_default v k dflt = Inl (no_attribute v ''get'')"

text \<open>\<^verbatim>\<open>d[k] = v\<close>: an existing key keeps its place, a new one goes last.\<close>

definition set_item :: "dict \<Rightarrow> string \<Rightarrow> json \<Rightarrow> dict" where
  "set_item d k v = AList.update k v d"

text \<open>\<^verbatim>\<open>str.strip()\<close>: the characters \<^verbatim>\<open>str.isspace()\<close> accepts, below 256.\<close>

definition is_space :: "char \<Rightarrow> bool" where
  "is_space c = (of_char c \<in> {9, 10, 11, 12, 13, 28, 29, 30, 31, 32, 133, 160 :: nat})"

definition strip :: "string \<Rightarrow> string" where
  "strip s = rev (dropWhile is_space (rev (dropWhile is_space s)))"

fun py_strip :: "json \<Rightarrow> error + string" where
  "py_strip (JStr s) = Inr (strip s)"
| "py_strip v = Inl (no_attribute v ''strip'')"

text \<open>Decimal text of an integer, as an f-string prints it.\<close>

fun str_nat :: "nat \<Rightarrow> string" where
  "str_nat n = (if n < 10 then [char_of (48 + n)] else str_nat (n div 10) @ [char_of (48 + n mod 10)])"

declare str_nat.simps [simp del]

definition str_int :: "int \<Rightarrow> string" where
  "str_int i = (if i < 0 then CHR ''-'' # str_nat (nat (- i)) else str_nat (nat i))"

text \<open>
  \<^verbatim>\<open>len(x)\<close>, \<^verbatim>\<open>x[:n]\<close> and \<^verbatim>\<open>sep.join(x)\<close>. Slicing a dictionary raises
  (a \<^verbatim>\<open>TypeError\<close> up to Python 3.11, a \<^verbatim>\<open>KeyError\<close> from 3.12 on; the model
  has the former).
\<close>

fun py_len :: "json \<Rightarrow> error + nat" where
  "py_len (JStr s) = Inr (length s)"
| "py_len (JList xs) = Inr (length xs)"
| "py_len (JObj d) = Inr (length d)"
| "py_len v = Inl (TypeError (''object of type '' @ squote (type_name v) @ '' has no len()''))"

fun py_slice_to :: "nat \<Rightarrow> json \<Rightarrow> error + json" where
  "py_slice_to n (JStr s) = Inr (JStr (take n s))"
| "py_slice_to n (JList xs) = Inr (JList (take n xs))"
| "py_slice_to n (JObj d) = Inl (TypeError (''unhashable type: '' @ squote ''slice''))"
| "py_slice_to n v = Inl (TypeError (squote (type_name v) @ '' object is not subscriptable''))"

fun join_items :: "string \<Rightarrow> nat \<Rightarrow> json list \<Rightarrow> error + string" where
  "join_items sep i [] = Inr []"
| "join_items sep i (JStr s # rest) =
     (case join_items sep (Suc i) rest of
        Inl e \<Rightarrow> Inl e
      | Inr t \<Rightarrow> Inr (if rest = [] then s else s @ sep @ t))"
| "join_items sep i (v # rest) =
     Inl (TypeError (''sequence item '' @ str_nat i @ '': expected str instance, ''
                     @ type_name v @ '' found''))"

fun py_join :: "string \<Rightarrow> json \<Rightarrow> error + string" where
  "py_join sep (JList xs) = join_items sep 0 xs"
| "py_join sep (JStr s) = join_items sep 0 (map (\<lambda>c. JStr [c]) s)"
| "py_join sep (JObj d) = join_items sep 0 (map (\<lambda>(k, v). JStr k) d)"
| "py_join sep v = Inl (TypeError ''can only join an iterable'')"


definition py_str :: "(json \<Rightarrow> string) \<Rightarrow> json \<Rightarrow> string" where
  \<comment> \<open>\<^verbatim>\<open>str(v)\<close>, as an f-string formats a value; \<open>repr\<close> prints floats and containers.\<close>
  "py_str repr v =
     (case v of
        JStr s \<Rightarrow> s
      | JNull \<Rightarrow> ''None''
      | JBool b \<Rightarrow> (if b then ''True'' else ''False'')
      | JInt n \<Rightarrow> str_int n
      | _ \<Rightarrow> repr v)"

subsection \<open>The services around the processor\<close>

text \<open>
  What the process reads but the repository does not define: two environment
  variables, \<^verbatim>\<open>json.loads\<close>, Python's \<^verbatim>\<open>repr\<close> of floats and containers,
  \<^verbatim>\<open>json.dumps(x, indent=2)\<close>, and Cosmos DB: how its engine evaluates a query
  text over the container's documents, whether the service is unreachable (then every call
  raises, with the given text), and the texts of its not-found and conflict errors.
\<close>

record env =
  COSMOS_ENDPOINT :: "string option"
  AZURE_OPENAI_ENDPOINT :: "string option"
  loads :: "string \<Rightarrow> error + json"
  py_repr :: "json \<Rightarrow> string"
  dumps :: "json \<Rightarrow> string"
  run_sql :: "string \<Rightarrow> dict list \<Rightarrow> error + json list"
  cosmos_fault :: "string option"
  not_found_text :: string
  conflict_text :: string

text \<open>
  Calls that leave the process, in the order they are made. A chat completion is
  recorded by the values spliced into its fixed prompt template.
\<close>

datatype event =
    ChatCompletion "string list"
  | CreateItem dict
  | QueryItems string
  | ReadItem json
  | ReplaceItem json dict

text \<open>
  The processor's attributes (\<^verbatim>\<open>_initialized\<close>, whether \<^verbatim>\<open>container\<close> and
  \<^verbatim>\<open>openai_client\<close> are set), the documents of the container, and the calls made.
\<close>

record state =
  initialized :: bool
  container :: bool
  openai_client :: bool
  docs :: "dict list"
  trace :: "event list"

record http_response =
  status_code :: nat
  body :: json

definition SEVERITY_LEVELS :: "(string \<times> int) list" where
  "SEVERITY_LEVELS =
     [(''Informational'', 1), (''Low'', 2), (''Medium'', 3), (''High'', 4), (''Critical'', 5)]"

fun severity_levels_get :: "json \<Rightarrow> error + json" where
  \<comment> \<open>\<^verbatim>\<open>SEVERITY_LEVELS.get(key, 0)\<close>: a list or a dict is no dictionary key.\<close>
  "severity_levels_get (JStr s) =
     Inr (JInt (case map_of SEVERITY_LEVELS s of None \<Rightarrow> 0 | Some n \<Rightarrow> n))"
| "severity_levels_get (JList xs) = Inl (TypeError (''unhashable type: '' @ squote ''list''))"
| "severity_levels_get (JObj d) = Inl (TypeError (''unhashable type: '' @ squote ''dict''))"
| "severity_levels_get v = Inr (JInt 0)"

subsection \<open>Initialisation\<close>

text \<open>
  The two set-up methods raise \<^verbatim>\<open>ValueError\<close> when their endpoint variable is unset or
  empty, and set the client otherwise (the constructors of the Azure clients make no call
  and are taken to succeed).
\<close>

definition setup_cosmos_client :: "env \<Rightarrow> state \<Rightarrow> error + state" where
  "setup_cosmos_client E s =
     (case COSMOS_ENDPOINT E of
        None \<Rightarrow> Inl (ValueError ''Missing required environment variable: COSMOS_ENDPOINT'')
      | Some ep \<Rightarrow>
          if ep = [] then Inl (ValueError ''Missing required environment variable: COSMOS_ENDPOINT'')
          else Inr (s\<lparr>container := True\<rparr>))"

definition setup_openai_client :: "env \<Rightarrow> state \<Rightarrow> error + state" where
  "setup_openai_client E s =
     (case AZURE_OPENAI_ENDPOINT E of
        None \<Rightarrow> Inl (ValueError ''Missing required environment variable: AZURE_OPENAI_ENDPOINT'')
      | Some ep \<Rightarrow>
          if ep = [] then Inl (ValueError ''Missing required environment variable: AZURE_OPENAI_ENDPOINT'')
          else Inr (s\<lparr>openai_client := True\<rparr>))"

definition ensure_initialized :: "env \<Rightarrow> state \<Rightarrow> (error + unit) \<times> state" where
  "ensure_initialized E s =
     (if initialized s then (Inr (), s)
      else case setup_cosmos_client E s of
             Inl e \<Rightarrow> (Inl e, s)
           | Inr s1 \<Rightarrow>
               (case setup_openai_client E s1 of
                  Inl e \<Rightarrow> (Inl e, s1)
                | Inr s2 \<Rightarrow> (Inr (), s2\<lparr>initialized := True\<rparr>)))"

subsection \<open>The container\<close>

text \<open>
  Cosmos DB as the code uses it: documents are found by their \<^verbatim>\<open>id\<close> (the handler
  passes the id as the partition key too); an id that is no stored document's matches
  nothing. Every call is recorded before it is answered.
\<close>

definition has_id :: "json \<Rightarrow> dict \<Rightarrow> bool" where
  "has_id i d = (map_of d ''id'' = Some i)"

definition called :: "event \<Rightarrow> state \<Rightarrow> state" where
  "called ev s = s\<lparr>trace := trace s @ [ev]\<rparr>"

definition create_item :: "env \<Rightarrow> dict \<Rightarrow> state \<Rightarrow> (error + dict) \<times> state" where
  "create_item E doc s =
     (let s1 = called (CreateItem doc) s in
      case cosmos_fault E of
        Some m \<Rightarrow> (Inl (ServiceError m), s1)
      | None \<Rightarrow>
          if \<exists>d \<in> set (docs s1). has_id (get doc ''id'') d
          then (Inl (CosmosResourceExistsError (conflict_text E)), s1)
          else (Inr doc, s1\<lparr>docs := docs s1 @ [doc]\<rparr>))"

definition query_items :: "env \<Rightarrow> string \<Rightarrow> state \<Rightarrow> (error + json list) \<times> state" where
  "query_items E sql s =
     (let s1 = called (QueryItems sql) s in
      case cosmos_fault E of
        Some m \<Rightarrow> (Inl (ServiceError m), s1)
      | None \<Rightarrow> (run_sql E sql (docs s1), s1))"

definition read_item :: "env \<Rightarrow> json \<Rightarrow> state \<Rightarrow> (error + dict) \<times> state" where
  "read_item E i s =
     (let s1 = called (ReadItem i) s in
      case cosmos_fault E of
        Some m \<Rightarrow> (Inl (ServiceError m), s1)
      | None \<Rightarrow>
          (case find (has_id i) (docs s1) of
             None \<Rightarrow> (Inl (CosmosResourceNotFoundError (not_found_text E)), s1)
           | Some d \<Rightarrow> (Inr d, s1)))"

fun replace_first :: "('a \<Rightarrow> bool) \<Rightarrow> 'a \<Rightarrow> 'a list \<Rightarrow> 'a list" where
  "replace_first P y [] = []"
| "replace_first P y (x # xs) = (if P x then y # xs else x # replace_first P y xs)"

definition replace_item :: "env \<Rightarrow> json \<Rightarrow> dict \<Rightarrow> state \<Rightarrow> (error + dict) \<times> state" where
  "replace_item E i doc s =
     (let s1 = called (ReplaceItem i doc) s in
      case cosmos_fault E of
        Some m \<Rightarrow> (Inl (ServiceError m), s1)
      | None \<Rightarrow>
          (case find (has_id i) (docs s1) of
             None \<Rightarrow> (Inl (CosmosResourceNotFoundError (not_found_text E)), s1)
           | Some d \<Rightarrow> (Inr doc, s1\<lparr>docs := replace_first (has_id i) doc (docs s1)\<rparr>)))"


subsection \<open>\<^verbatim>\<open>SentinelIncidentProcessor.analyze_incident\<close>\<close>

text \<open>
  The user message is built before the \<^verbatim>\<open>try\<close>; its f-string joins the tactics,
  takes \<^verbatim>\<open>len(entities)\<close> and dumps \<^verbatim>\<open>entities[:5]\<close>, each of which raises on a
  value of the wrong type. The result lists the six values spliced into the template.
\<close>

definition user_message :: "env \<Rightarrow> dict \<Rightarrow> error + string list" where
  "user_message E incident_data =
     (let title = get_default incident_data ''title'' (JStr ''Unknown incident'');
          description = get_default incident_data ''description'' (JStr []);
          severity = get_default incident_data ''severity'' (JStr ''Unknown'');
          entities = get_default incident_data ''relatedEntities'' (JList []);
          tactics = get_default incident_data ''tactics'' (JList [])
      in case (if truthy tactics then py_join '', '' tactics else Inr ''None identified'') of
           Inl e \<Rightarrow> Inl e
         | Inr tactics_text \<Rightarrow>
             (case py_len entities of
                Inl e \<Rightarrow> Inl e
              | Inr n \<Rightarrow>
                  (case (if truthy entities
                         then (case py_slice_to 5 entities of
                                 Inl e \<Rightarrow> Inl e
                               | Inr first5 \<Rightarrow> Inr (dumps E first5))
                         else Inr ''No entities'') of
                     Inl e \<Rightarrow> Inl e
                   | Inr entities_text \<Rightarrow>
                       Inr [py_str (py_repr E) title, py_str (py_repr E) severity,
                            py_str (py_repr E) description, tactics_text, str_nat n,
                            entities_text])))"

text \<open>The default analysis of the \<^verbatim>\<open>except\<close> branch.\<close>

definition default_analysis :: "json \<Rightarrow> error \<Rightarrow> json" where
  "default_analysis severity e =
     JObj [(''risk_level'', severity),
           (''immediate_actions'', JList [JStr ''Investigate incident'', JStr ''Assess impact'']),
           (''short_term_actions'', JList [JStr ''Review logs'', JStr ''Document findings'']),
           (''long_term_actions'', JList [JStr ''Update security policies'']),
           (''required_teams'', JList [JStr ''Security Operations'']),
           (''estimated_resolution_hours'', JInt 24),
           (''business_impact'', JStr ''Unable to determine''),
           (''analysis_summary'', JStr (''Error during analysis: '' @ str_error e))]"

text \<open>
  \<open>chat\<close> is what awaiting the chat completion and reading
  \<^verbatim>\<open>response.choices[0].message.content\<close> gives: the content, or the exception
  raised on the way (a missing content makes \<^verbatim>\<open>json.loads\<close> raise in the same
  \<^verbatim>\<open>try\<close>, and is an exception here).
\<close>

definition analyze_incident ::
  "env \<Rightarrow> error + string \<Rightarrow> dict \<Rightarrow> state \<Rightarrow> (error + json) \<times> state" where
  "analyze_incident E chat incident_data s =
     (case ensure_initialized E s of
        (Inl e, s1) \<Rightarrow> (Inl e, s1)
      | (Inr u, s1) \<Rightarrow>
          if \<not> openai_client s1
          then (Inl (RuntimeError ''OpenAI client not properly initialized''), s1)
          else
            (let severity = get_default incident_data ''severity'' (JStr ''Unknown'') in
             case user_message E incident_data of
               Inl e \<Rightarrow> (Inl e, s1)
             | Inr message \<Rightarrow>
                 (let s2 = called (ChatCompletion message) s1 in
                  case chat of
                    Inl e \<Rightarrow> (Inr (default_analysis severity e), s2)
                  | Inr content \<Rightarrow>
                      (case loads E content of
                         Inl e \<Rightarrow> (Inr (default_analysis severity e), s2)
                       | Inr analysis \<Rightarrow> (Inr analysis, s2)))))"

subsection \<open>\<^verbatim>\<open>SentinelIncidentProcessor.store_incident\<close>\<close>

text \<open>
  The document literal. \<open>uuid\<close> is what \<^verbatim>\<open>str(uuid.uuid4())\<close> returns and
  \<open>utcnow i\<close> the \<open>i\<close>-th reading of \<^verbatim>\<open>datetime.utcnow().isoformat()\<close> in the call.
  Only the severity lookup can raise.
\<close>

definition incident_document ::
  "string \<Rightarrow> (nat \<Rightarrow> string) \<Rightarrow> dict \<Rightarrow> json \<Rightarrow> error + dict" where
  "incident_document uuid utcnow incident_data analysis =
     (case severity_levels_get (get_default incident_data ''severity'' (JStr ''Unknown'')) of
        Inl e \<Rightarrow> Inl e
      | Inr level \<Rightarrow>
          Inr [(''id'', JStr uuid),
               (''document_type'', JStr ''security_incident''),
               (''incident_id'', py_or (get incident_data ''incidentId'') (get incident_data ''id'')),
               (''title'', py_or (get incident_data ''title'') (get incident_data ''incidentName'')),
               (''severity'', get incident_data ''severity''),
               (''severity_level'', level),
               (''status'', get_default incident_data ''status'' (JStr ''New'')),
               (''created_time'', get_default incident_data ''createdTimeUtc'' (JStr (utcnow 0))),
               (''last_modified_time'',
                  get_default incident_data ''lastModifiedTimeUtc'' (JStr (utcnow 1))),
               (''description'', get incident_data ''description''),
               (''tactics'', get_default incident_data ''tactics'' (JList [])),
               (''techniques'', get_default incident_data ''techniques'' (JList [])),
               (''entities'', get_default incident_data ''relatedEntities'' (JList [])),
               (''alerts'', get_default incident_data ''relatedAlerts'' (JList [])),
               (''analysis'', analysis),
               (''action_plan_status'', JStr ''Pending''),
               (''processed_time'', JStr (utcnow 2)),
               (''raw_data'', JObj incident_data)])"

definition store_incident ::
  "env \<Rightarrow> string \<Rightarrow> (nat \<Rightarrow> string) \<Rightarrow> dict \<Rightarrow> json \<Rightarrow> state \<Rightarrow> (error + dict) \<times> state" where
  "store_incident E uuid utcnow incident_data analysis s =
     (case ensure_initialized E s of
        (Inl e, s1) \<Rightarrow> (Inl e, s1)
      | (Inr u, s1) \<Rightarrow>
          if \<not> container s1
          then (Inl (RuntimeError ''Cosmos DB container not properly initialized''), s1)
          else
            (case incident_document uuid utcnow incident_data analysis of
               Inl e \<Rightarrow> (Inl e, s1)
             | Inr document \<Rightarrow>
                 (case create_item E document s1 of
                    (Inl e, s2) \<Rightarrow> (Inl e, s2)
                  | (Inr result, s2) \<Rightarrow>
                      (Inr [(''success'', JBool True),
                            (''document_id'', get document ''id''),
                            (''incident_id'', get document ''incident_id'')], s2))))"

subsection \<open>\<^verbatim>\<open>generate_incident_sql\<close> and \<^verbatim>\<open>query_incidents\<close>\<close>

text \<open>
  \<^verbatim>\<open>re.sub(fence + r'\n?', '', s)\<close> for a literal, non-empty fence: every occurrence,
  left to right, goes together with one newline that follows it.
\<close>

definition drop_newline :: "string \<Rightarrow> string" where
  "drop_newline r = (case r of [] \<Rightarrow> [] | c # r' \<Rightarrow> if c = CHR 0x0A then r' else r)"

function re_sub_fence :: "string \<Rightarrow> string \<Rightarrow> string" where
  "re_sub_fence fence [] = []"
| "re_sub_fence fence (c # cs) =
     (if fence \<noteq> [] \<and> prefix fence (c # cs)
      then re_sub_fence fence (drop_newline (drop (length fence) (c # cs)))
      else c # re_sub_fence fence cs)"
  by pat_completeness auto
termination
proof (relation "measure (\<lambda>(fence, s). length s)")
  show "wf (measure (\<lambda>(fence :: string, s :: string). length s))"
    by simp
next
  fix fence :: string and c :: char and cs :: string
  assume "fence \<noteq> [] \<and> prefix fence (c # cs)"
  then have "length (drop (length fence) (c # cs)) \<le> length cs"
    by (cases fence) auto
  moreover have "length (drop_newline r) \<le> length r" for r
    by (auto simp: drop_newline_def split: list.splits)
  ultimately have "length (drop_newline (drop (length fence) (c # cs))) \<le> length cs"
    using le_trans by blast
  then show "((fence, drop_newline (drop (length fence) (c # cs))), (fence, c # cs))
               \<in> measure (\<lambda>(fence, s). length s)"
    by simp
next
  fix fence :: string and c :: char and cs :: string
  show "((fence, cs), (fence, c # cs)) \<in> measure (\<lambda>(fence, s). length s)"
    by simp
qed

declare re_sub_fence.simps [simp del]

definition backticks :: string where
  "backticks = replicate 3 (CHR 0x60)"

definition clean_sql :: "string \<Rightarrow> string" where
  \<comment> \<open>\<^verbatim>\<open>content.strip()\<close>, then the two \<^verbatim>\<open>re.sub\<close> calls.\<close>
  "clean_sql content = re_sub_fence backticks (re_sub_fence (backticks @ ''sql'') (strip content))"

definition generate_incident_sql ::
  "env \<Rightarrow> error + string \<Rightarrow> string \<Rightarrow> state \<Rightarrow> (error + string) \<times> state" where
  "generate_incident_sql E chat natural_language_query s =
     (case ensure_initialized E s of
        (Inl e, s1) \<Rightarrow> (Inl e, s1)
      | (Inr u, s1) \<Rightarrow>
          if \<not> openai_client s1 then (Inl (no_attribute JNull ''chat''), s1)
          else
            (let s2 = called (ChatCompletion [natural_language_query]) s1 in
             case chat of
               Inl e \<Rightarrow> (Inl e, s2)
             | Inr content \<Rightarrow> (Inr (clean_sql content), s2)))"

definition query_incidents ::
  "env \<Rightarrow> error + string \<Rightarrow> string \<Rightarrow> state \<Rightarrow> (error + json list) \<times> state" where
  "query_incidents E chat query s =
     (case ensure_initialized E s of
        (Inl e, s1) \<Rightarrow> (Inl e, s1)
      | (Inr u, s1) \<Rightarrow>
          (case generate_incident_sql E chat query s1 of
             (Inl e, s2) \<Rightarrow> (Inl e, s2)
           | (Inr sql_query, s2) \<Rightarrow>
               if \<not> container s2 then (Inl (no_attribute JNull ''query_items''), s2)
               else query_items E sql_query s2))"

subsection \<open>\<^verbatim>\<open>get_sample_incidents\<close>\<close>

definition sample_sql :: "int \<Rightarrow> string" where
  "sample_sql limit =
     ''SELECT TOP '' @ str_int limit @ '' * FROM c WHERE c.document_type = ''
     @ squote ''security_incident'' @ '' ORDER BY c.severity_level DESC''"

definition get_sample_incidents :: "env \<Rightarrow> int \<Rightarrow> state \<Rightarrow> (error + json list) \<times> state" where
  "get_sample_incidents E limit s =
     (case ensure_initialized E s of
        (Inl e, s1) \<Rightarrow> (Inl e, s1)
      | (Inr u, s1) \<Rightarrow>
          if \<not> container s1
          then (Inl (RuntimeError ''Cosmos DB container not properly initialized''), s1)
          else query_items E (sample_sql limit) s1)"


subsection \<open>The handlers\<close>

text \<open>
  A handler's answer is the status code and the value it hands to \<^verbatim>\<open>json.dumps\<close>
  (the header is always \<^verbatim>\<open>Content-Type: application/json\<close>). Each handler is a
  \<^verbatim>\<open>try\<close> block, modelled by a function that may return \<open>Inl\<close>, and the
  \<^verbatim>\<open>except Exception\<close> that turns the exception into an answer. \<open>request_json\<close>
  is what \<^verbatim>\<open>req.get_json()\<close> gives, \<open>params\<close> is \<^verbatim>\<open>req.params\<close>, and
  \<open>now\<close> is the clock reading that stamps the answer.
\<close>

definition failure :: "nat \<Rightarrow> error \<Rightarrow> string \<Rightarrow> http_response" where
  "failure code e now =
     \<lparr>status_code = code,
      body = JObj [(''success'', JBool False), (''error'', JStr (str_error e)),
                   (''timestamp'', JStr now)]\<rparr>"

paragraph \<open>\<^verbatim>\<open>sentinel_receiver\<close>\<close>

definition unwrap_incident :: "json \<Rightarrow> error + json" where
  \<comment> \<open>\<^verbatim>\<open>incident = body.get("properties") or body\<close>\<close>
  "unwrap_incident request_body =
     (case py_get request_body ''properties'' of
        Inl e \<Rightarrow> Inl e
      | Inr properties \<Rightarrow> Inr (py_or properties request_body))"

definition key_fields :: "json \<Rightarrow> error + dict \<times> json \<times> json \<times> json" where
  \<comment> \<open>The incident (a dictionary, or the first \<^verbatim>\<open>.get\<close> raises), its title, severity and id.\<close>
  "key_fields incident =
     (case incident of
        JObj d \<Rightarrow>
          Inr (d,
               py_or (get d ''title'') (get d ''incidentName''),
               get_default d ''severity'' (JStr ''Unknown''),
               py_or (get d ''incidentId'') (get d ''id''))
      | _ \<Rightarrow> Inl (no_attribute incident ''get''))"

definition sentinel_receiver_try ::
  "env \<Rightarrow> error + json \<Rightarrow> error + string \<Rightarrow> string \<Rightarrow> (nat \<Rightarrow> string) \<Rightarrow> string \<Rightarrow> state
     \<Rightarrow> (error + dict) \<times> state" where
  "sentinel_receiver_try E request_json chat uuid utcnow now s =
     (case request_json of
        Inl e \<Rightarrow> (Inl e, s)
      | Inr request_body \<Rightarrow>
     (case unwrap_incident request_body of
        Inl e \<Rightarrow> (Inl e, s)
      | Inr incident \<Rightarrow>
     (case key_fields incident of
        Inl e \<Rightarrow> (Inl e, s)
      | Inr (incident_data, title, severity, incident_id) \<Rightarrow>
     (case analyze_incident E chat incident_data s of
        (Inl e, s1) \<Rightarrow> (Inl e, s1)
      | (Inr analysis, s1) \<Rightarrow>
     (case store_incident E uuid utcnow incident_data analysis s1 of
        (Inl e, s2) \<Rightarrow> (Inl e, s2)
      | (Inr storage_result, s2) \<Rightarrow>
     (case analysis of
        JObj a \<Rightarrow>
          (Inr [(''success'', JBool True),
                (''incident_id'', incident_id),
                (''document_id'', get storage_result ''document_id''),
                (''title'', title),
                (''severity'', severity),
                (''risk_level'', get a ''risk_level''),
                (''immediate_actions'', get_default a ''immediate_actions'' (JList [])),
                (''estimated_resolution_hours'', get a ''estimated_resolution_hours''),
                (''message'', JStr ''Incident processed and action plan generated''),
                (''timestamp'', JStr now)], s2)
      | _ \<Rightarrow> (Inl (no_attribute analysis ''get''), s2)))))))"

definition sentinel_receiver ::
  "env \<Rightarrow> error + json \<Rightarrow> error + string \<Rightarrow> string \<Rightarrow> (nat \<Rightarrow> string) \<Rightarrow> string \<Rightarrow> state
     \<Rightarrow> http_response \<times> state" where
  "sentinel_receiver E request_json chat uuid utcnow now s =
     (case sentinel_receiver_try E request_json chat uuid utcnow now s of
        (Inl ex, s1) \<Rightarrow> (failure 400 ex now, s1)
      | (Inr response_data, s1) \<Rightarrow> (\<lparr>status_code = 200, body = JObj response_data\<rparr>, s1))"

paragraph \<open>\<^verbatim>\<open>http_query_incidents\<close>\<close>

definition default_query :: string where
  "default_query =
     ''SELECT * FROM c WHERE c.document_type = '' @ [CHR 0x22] @ ''security_incident''
     @ [CHR 0x22] @ '' ORDER BY c.severity_level DESC''"

definition http_query_incidents ::
  "env \<Rightarrow> (string \<times> string) list \<Rightarrow> error + string \<Rightarrow> string \<Rightarrow> state
     \<Rightarrow> http_response \<times> state" where
  "http_query_incidents E params chat now s =
     (let query = (case map_of params ''query'' of None \<Rightarrow> default_query | Some q \<Rightarrow> q) in
      case query_incidents E chat query s of
        (Inl e, s1) \<Rightarrow> (failure 500 e now, s1)
      | (Inr incidents, s1) \<Rightarrow>
          (\<lparr>status_code = 200,
            body = JObj [(''success'', JBool True),
                         (''query'', JStr query),
                         (''incidents'', JList incidents),
                         (''count'', JInt (int (length incidents))),
                         (''timestamp'', JStr now)]\<rparr>, s1))"

paragraph \<open>\<^verbatim>\<open>http_update_incident_actions\<close>\<close>

text \<open>\<open>updated\<close> is the clock reading written to \<^verbatim>\<open>action_plan_updated\<close>.\<close>

definition http_update_incident_actions_try ::
  "env \<Rightarrow> error + json \<Rightarrow> string \<Rightarrow> string \<Rightarrow> state \<Rightarrow> (error + http_response) \<times> state" where
  "http_update_incident_actions_try E request_json updated now s =
     (case request_json of
        Inl e \<Rightarrow> (Inl e, s)
      | Inr (JObj req_body) \<Rightarrow>
          (let document_id = get req_body ''document_id'';
               action_status = get req_body ''action_status'';
               notes = get_default req_body ''notes'' (JStr [])
           in if \<not> truthy document_id \<or> \<not> truthy action_status
              then (Inr \<lparr>status_code = 400,
                         body = JObj [(''error'',
                                       JStr ''Missing required fields: document_id, action_status'')]\<rparr>,
                    s)
              else
                (case ensure_initialized E s of
                   (Inl e, s1) \<Rightarrow> (Inl e, s1)
                 | (Inr u, s1) \<Rightarrow>
                     if \<not> container s1 then (Inl (no_attribute JNull ''read_item''), s1)
                     else
                       (case read_item E document_id s1 of
                          (Inl e, s2) \<Rightarrow> (Inl e, s2)
                        | (Inr document, s2) \<Rightarrow>
                            (let document1 = set_item document ''action_plan_status'' action_status;
                                 document2 = set_item document1 ''action_plan_notes'' notes;
                                 document3 = set_item document2 ''action_plan_updated'' (JStr updated)
                             in case replace_item E document_id document3 s2 of
                                  (Inl e, s3) \<Rightarrow> (Inl e, s3)
                                | (Inr r, s3) \<Rightarrow>
                                    (Inr \<lparr>status_code = 200,
                                          body = JObj [(''success'', JBool True),
                                                       (''document_id'', document_id),
                                                       (''action_status'', action_status),
                                                       (''timestamp'', JStr now)]\<rparr>,
                                     s3)))))
      | Inr v \<Rightarrow> (Inl (no_attribute v ''get''), s))"

definition http_update_incident_actions ::
  "env \<Rightarrow> error + json \<Rightarrow> string \<Rightarrow> string \<Rightarrow> state \<Rightarrow> http_response \<times> state" where
  "http_update_incident_actions E request_json updated now s =
     (case http_update_incident_actions_try E request_json updated now s of
        (Inl e, s1) \<Rightarrow> (failure 500 e now, s1)
      | (Inr response, s1) \<Rightarrow> (response, s1))"


paragraph \<open>\<^verbatim>\<open>mcp_query_incidents\<close>\<close>

definition nl :: string where
  "nl = [CHR 0x0A]"

text \<open>One turn of the summary loop: the lines added for the incident at index \<open>i\<close>.\<close>

definition incident_summary :: "env \<Rightarrow> nat \<Rightarrow> json \<Rightarrow> error + string" where
  "incident_summary E i incident =
     (case incident of
        JObj d \<Rightarrow>
          (let head =
                 nl @ str_nat (i + 1) @ ''. '' @ py_str (py_repr E) (get_default d ''title'' (JStr ''Unknown'')) @ nl
                 @ ''   - Severity: '' @ py_str (py_repr E) (get_default d ''severity'' (JStr ''Unknown'')) @ nl
           in case py_get_default (get_default d ''analysis'' (JObj [])) ''risk_level'' (JStr ''Not assessed'') of
                Inl e \<Rightarrow> Inl e
              | Inr risk \<Rightarrow>
                  (let lines =
                         head @ ''   - Risk Level: '' @ py_str (py_repr E) risk @ nl
                         @ ''   - Status: ''
                         @ py_str (py_repr E) (get_default d ''action_plan_status'' (JStr ''Unknown'')) @ nl
                         @ ''   - Created: ''
                         @ py_str (py_repr E) (get_default d ''created_time'' (JStr ''Unknown'')) @ nl
                   in case py_get_default (get_default d ''analysis'' (JObj [])) ''immediate_actions'' (JList []) of
                        Inl e \<Rightarrow> Inl e
                      | Inr actions \<Rightarrow>
                          if truthy actions
                          then (case py_slice_to 2 actions of
                                  Inl e \<Rightarrow> Inl e
                                | Inr first2 \<Rightarrow>
                                    (case py_join '', '' first2 of
                                       Inl e \<Rightarrow> Inl e
                                     | Inr joined \<Rightarrow>
                                         Inr (lines @ ''   - Immediate Actions: '' @ joined @ nl)))
                          else Inr lines))
      | _ \<Rightarrow> Inl (no_attribute incident ''get''))"

fun summarize :: "env \<Rightarrow> nat \<Rightarrow> json list \<Rightarrow> error + string" where
  "summarize E i [] = Inr []"
| "summarize E i (incident # rest) =
     (case incident_summary E i incident of
        Inl e \<Rightarrow> Inl e
      | Inr t \<Rightarrow> (case summarize E (Suc i) rest of Inl e \<Rightarrow> Inl e | Inr r \<Rightarrow> Inr (t @ r)))"

definition summary_text :: "env \<Rightarrow> string \<Rightarrow> json list \<Rightarrow> error + string" where
  "summary_text E query incidents =
     (let head = ''Query: '' @ query @ nl
                 @ ''Results: '' @ str_nat (length incidents) @ '' incidents found'' @ nl @ nl
      in if incidents \<noteq> []
         then (case summarize E 0 (take 5 incidents) of
                 Inl e \<Rightarrow> Inl e
               | Inr body_text \<Rightarrow>
                   Inr (head @ ''Incident Summary:'' @ nl @ body_text
                        @ (if length incidents > 5
                           then nl @ ''... and '' @ str_nat (length incidents - 5)
                                @ '' more incidents'' @ nl
                           else [])))
         else Inr (head @ ''No incidents matching your query.'' @ nl))"

text \<open>
  The tool takes the request text and returns the text of a JSON object; the model
  returns the object that \<^verbatim>\<open>json.dumps\<close> serialises.
\<close>

definition mcp_query_incidents_try ::
  "env \<Rightarrow> error + string \<Rightarrow> string \<Rightarrow> string \<Rightarrow> state \<Rightarrow> (error + dict) \<times> state" where
  "mcp_query_incidents_try E chat now req s =
     (case loads E req of
        Inl e \<Rightarrow> (Inl e, s)
      | Inr req_data \<Rightarrow>
     (case py_get_default req_data ''arguments'' (JObj []) of
        Inl e \<Rightarrow> (Inl e, s)
      | Inr args \<Rightarrow>
     (case py_get_default args ''query'' (JStr []) of
        Inl e \<Rightarrow> (Inl e, s)
      | Inr q \<Rightarrow>
     (case py_strip q of
        Inl e \<Rightarrow> (Inl e, s)
      | Inr query \<Rightarrow>
          if query = []
          then (Inr [(''error'', JStr ''Query parameter is required''), (''success'', JBool False)], s)
          else
            (case query_incidents E chat query s of
               (Inl e, s1) \<Rightarrow> (Inl e, s1)
             | (Inr incidents, s1) \<Rightarrow>
                 (case summary_text E query incidents of
                    Inl e \<Rightarrow> (Inl e, s1)
                  | Inr summary \<Rightarrow>
                      (Inr [(''success'', JBool True),
                            (''query'', JStr query),
                            (''summary'', JStr summary),
                            (''incidents'', JList incidents),
                            (''count'', JInt (int (length incidents))),
                            (''timestamp'', JStr now)], s1)))))))"

definition mcp_query_incidents ::
  "env \<Rightarrow> error + string \<Rightarrow> string \<Rightarrow> string \<Rightarrow> state \<Rightarrow> dict \<times> state" where
  "mcp_query_incidents E chat now req s =
     (case mcp_query_incidents_try E chat now req s of
        (Inl e, s1) \<Rightarrow>
          ([(''error'', JStr (''Error querying incidents: '' @ str_error e)),
            (''success'', JBool False),
            (''timestamp'', JStr now)], s1)
      | (Inr answer, s1) \<Rightarrow> (answer, s1))"

paragraph \<open>\<^verbatim>\<open>http_get_sample_incidents\<close>\<close>

text \<open>
  \<^verbatim>\<open>int(text)\<close>: outer whitespace is skipped, then come an optional sign and decimal
  digits, with single underscores allowed between digits. The whitespace is what C's
  \<^verbatim>\<open>isspace\<close> accepts and, from code point 128 on, the two spaces 0x85 and 0xA0; the
  separators 0x1C to 0x1F, which \<^verbatim>\<open>str.strip()\<close> removes, are no whitespace here.
  A text of more than 4300 digits is refused (the interpreter's default limit for integer
  string conversion), which is noticed before whatever follows the digits.
\<close>

definition is_int_space :: "char \<Rightarrow> bool" where
  "is_int_space c = (of_char c \<in> {9, 10, 11, 12, 13, 32, 133, 160 :: nat})"

definition is_digit :: "char \<Rightarrow> bool" where
  "is_digit c = (48 \<le> (of_char c :: nat) \<and> (of_char c :: nat) \<le> 57)"

fun digits_ok :: "string \<Rightarrow> bool" where
  "digits_ok [] = False"
| "digits_ok [c] = is_digit c"
| "digits_ok (c # d # r) =
     (is_digit c \<and> (if d = CHR ''_'' then digits_ok r else digits_ok (d # r)))"

definition digits_value :: "string \<Rightarrow> nat" where
  "digits_value ds = foldl (\<lambda>a c. 10 * a + (of_char c - 48)) 0 (filter is_digit ds)"

definition invalid_literal :: "(json \<Rightarrow> string) \<Rightarrow> string \<Rightarrow> error" where
  "invalid_literal repr text =
     ValueError (''invalid literal for int() with base 10: '' @ repr (JStr text))"

definition py_int :: "(json \<Rightarrow> string) \<Rightarrow> string \<Rightarrow> error + int" where
  "py_int repr text =
     (let t = rev (dropWhile is_int_space (rev (dropWhile is_int_space text)));
          (negative, ds) =
             (case t of
                [] \<Rightarrow> (False, [])
              | c # r \<Rightarrow>
                  if c = CHR ''-'' then (True, r)
                  else if c = CHR ''+'' then (False, r)
                  else (False, t));
          run = takeWhile (\<lambda>c. is_digit c \<or> c = CHR ''_'') ds;
          rest = dropWhile (\<lambda>c. is_digit c \<or> c = CHR ''_'') ds;
          n = length (filter is_digit run)
      in if \<not> digits_ok run then Inl (invalid_literal repr text)
         else if 4300 < n
           then Inl (ValueError
                  (''Exceeds the limit (4300 digits) for integer string conversion: value has ''
                   @ str_nat n @ '' digits; use sys.set_int_max_str_digits() to increase the limit''))
         else if rest \<noteq> [] then Inl (invalid_literal repr text)
         else Inr (if negative then - int (digits_value run) else int (digits_value run)))"

definition http_get_sample_incidents_try ::
  "env \<Rightarrow> (string \<times> string) list \<Rightarrow> string \<Rightarrow> state \<Rightarrow> (error + http_response) \<times> state" where
  "http_get_sample_incidents_try E params now s =
     (case py_int (py_repr E) (case map_of params ''limit'' of None \<Rightarrow> ''10'' | Some t \<Rightarrow> t) of
        Inl e \<Rightarrow> (Inl e, s)
      | Inr limit0 \<Rightarrow>
          (let limit = min (max limit0 1) 100 in
           case get_sample_incidents E limit s of
             (Inl e, s1) \<Rightarrow> (Inl e, s1)
           | (Inr sample_incidents, s1) \<Rightarrow>
               (Inr \<lparr>status_code = 200,
                     body = JObj [(''sample_incidents'', JList sample_incidents),
                                  (''count'', JInt (int (length sample_incidents))),
                                  (''success'', JBool True),
                                  (''timestamp'', JStr now)]\<rparr>, s1)))"

definition http_get_sample_incidents ::
  "env \<Rightarrow> (string \<times> string) list \<Rightarrow> string \<Rightarrow> state \<Rightarrow> http_response \<times> state" where
  "http_get_sample_incidents E params now s =
     (case http_get_sample_incidents_try E params now s of
        (Inl e, s1) \<Rightarrow>
          (\<lparr>status_code = 500,
            body = JObj [(''error'', JStr (''Internal server error: '' @ str_error e)),
                         (''success'', JBool False),
                         (''timestamp'', JStr now)]\<rparr>, s1)
      | (Inr response, s1) \<Rightarrow> (response, s1))"


subsection \<open>The notions the specification states its properties with\<close>

text \<open>The rank the specification gives each severity: 1 to 5, and 0 for anything else.\<close>

definition severity_rank :: "json option \<Rightarrow> int" where
  "severity_rank v =
     (if v = Some (JStr ''Informational'') then 1
      else if v = Some (JStr ''Low'') then 2
      else if v = Some (JStr ''Medium'') then 3
      else if v = Some (JStr ''High'') then 4
      else if v = Some (JStr ''Critical'') then 5
      else 0)"

text \<open>
  A well-formed action plan, as the specification's data model has it: the eight
  fields, each of its type, the risk level one of the four allowed.
\<close>

definition is_string :: "json \<Rightarrow> bool" where
  "is_string v = (case v of JStr t \<Rightarrow> True | _ \<Rightarrow> False)"

definition is_string_list :: "json \<Rightarrow> bool" where
  "is_string_list v = (case v of JList xs \<Rightarrow> list_all is_string xs | _ \<Rightarrow> False)"

definition is_nonneg_number :: "json \<Rightarrow> bool" where
  "is_nonneg_number v =
     (case v of
        JInt n \<Rightarrow> 0 \<le> n
      | JFloat x \<Rightarrow> (case x of Finite q \<Rightarrow> 0 \<le> q | NaN \<Rightarrow> False | Infinity positive \<Rightarrow> positive)
      | _ \<Rightarrow> False)"

definition field_is :: "dict \<Rightarrow> string \<Rightarrow> (json \<Rightarrow> bool) \<Rightarrow> bool" where
  "field_is a k P = (case map_of a k of None \<Rightarrow> False | Some v \<Rightarrow> P v)"

definition risk_levels :: "string list" where
  "risk_levels = [''Critical'', ''High'', ''Medium'', ''Low'']"

definition is_risk_level :: "json \<Rightarrow> bool" where
  "is_risk_level v = (case v of JStr r \<Rightarrow> r \<in> set risk_levels | _ \<Rightarrow> False)"

definition other_fields_ok :: "dict \<Rightarrow> bool" where
  \<comment> \<open>The seven fields besides the risk level.\<close>
  "other_fields_ok a =
     (field_is a ''immediate_actions'' is_string_list \<and>
      field_is a ''short_term_actions'' is_string_list \<and>
      field_is a ''long_term_actions'' is_string_list \<and>
      field_is a ''required_teams'' is_string_list \<and>
      field_is a ''estimated_resolution_hours'' is_nonneg_number \<and>
      field_is a ''business_impact'' is_string \<and>
      field_is a ''analysis_summary'' is_string)"

definition action_plan_ok :: "json \<Rightarrow> bool" where
  "action_plan_ok v =
     (case v of JObj a \<Rightarrow> field_is a ''risk_level'' is_risk_level \<and> other_fields_ok a | _ \<Rightarrow> False)"

text \<open>The record-type filter a query text must hold.\<close>

fun contains :: "string \<Rightarrow> string \<Rightarrow> bool" where
  "contains part [] = (part = [])"
| "contains part (c # cs) = (prefix part (c # cs) \<or> contains part cs)"

definition type_filter :: string where
  "type_filter = ''document_type = '' @ squote ''security_incident''"

definition has_type_filter :: "string \<Rightarrow> bool" where
  "has_type_filter sql = contains type_filter sql"

text \<open>
  What \<^verbatim>\<open>SELECT TOP n * FROM c WHERE c.document_type = 'security_incident' ORDER BY
  c.severity_level DESC\<close> asks of the container: of the incident documents, the \<open>n\<close> first in
  descending order of their level.
\<close>

definition level_of :: "dict \<Rightarrow> int" where
  "level_of d = (case get d ''severity_level'' of JInt n \<Rightarrow> n | _ \<Rightarrow> 0)"

definition top_by_severity :: "int \<Rightarrow> dict list \<Rightarrow> dict list" where
  "top_by_severity n ds =
     take (nat n)
       (sort_key (\<lambda>d. - level_of d)
          (filter (\<lambda>d. get d ''document_type'' = JStr ''security_incident'') ds))"

text \<open>
  How the engine reads the text of such a query: the number after \<^verbatim>\<open>TOP\<close>, when the
  text is that query and nothing else. An engine honours it when it answers every such
  text with those documents.
\<close>

definition top_query :: "string \<Rightarrow> nat option" where
  "top_query sql =
     (let r = drop (length ''SELECT TOP '') sql;
          ds = takeWhile is_digit r;
          rest = dropWhile is_digit r
      in if prefix ''SELECT TOP '' sql \<and> ds \<noteq> [] \<and>
            rest = '' * FROM c WHERE c.document_type = '' @ squote ''security_incident''
                   @ '' ORDER BY c.severity_level DESC''
         then Some (digits_value ds)
         else None)"

definition honours_top :: "env \<Rightarrow> bool" where
  "honours_top E =
     (\<forall>sql n ds. top_query sql = Some n \<longrightarrow>
        run_sql E sql ds = Inr (map JObj (top_by_severity (int n) ds)))"

definition level_of_json :: "json \<Rightarrow> int" where
  "level_of_json v = (case v of JObj d \<Rightarrow> level_of d | _ \<Rightarrow> 0)"

definition non_increasing :: "int list \<Rightarrow> bool" where
  "non_increasing xs = sorted_wrt (\<lambda>a b. b \<le> a) xs"

text \<open>The documents stored under a business key.\<close>

definition stored_under :: "json \<Rightarrow> state \<Rightarrow> dict list" where
  "stored_under k s = filter (\<lambda>d. get d ''incident_id'' = k) (docs s)"

subsection \<open>A concrete deployment\<close>

text \<open>
  A configured deployment whose container starts with the given documents, used to run
  the operations on concrete requests. Its \<^verbatim>\<open>json.loads\<close> reads the few texts used
  below; its query engine answers every query with all incident documents, highest level
  first.
\<close>

definition demo_loads :: "string \<Rightarrow> error + json" where
  "demo_loads t =
     (if t = ''{}'' then Inr (JObj [])
      else if t = ''{\"arguments\": {\"query\": \" \"}}''
        then Inr (JObj [(''arguments'', JObj [(''query'', JStr '' '')])])
      else if t = ''{\"arguments\": {\"query\": \"show critical incidents\"}}''
        then Inr (JObj [(''arguments'', JObj [(''query'', JStr ''show critical incidents'')])])
      else Inl (ValueError ''Expecting value: line 1 column 1 (char 0)''))"

definition demo_env :: env where
  "demo_env =
     \<lparr>COSMOS_ENDPOINT = Some ''https://cosmos.example'',
      AZURE_OPENAI_ENDPOINT = Some ''https://openai.example'',
      loads = demo_loads,
      py_repr = (\<lambda>v. ''<repr>''),
      dumps = (\<lambda>v. ''<json>''),
      run_sql = (\<lambda>sql ds. Inr (map JObj (top_by_severity 100 ds))),
      cosmos_fault = None,
      not_found_text = ''(NotFound) Entity with the specified id does not exist in the system.'',
      conflict_text = ''(Conflict) Entity with the specified id already exists in the system.''\<rparr>"

definition new_processor :: "dict list \<Rightarrow> state" where
  "new_processor ds =
     \<lparr>initialized = False, container = False, openai_client = False, docs = ds, trace = []\<rparr>"

definition at_noon :: "nat \<Rightarrow> string" where
  "at_noon i = ''2025-01-01T12:00:00''"


definition demo_incident :: dict where
  "demo_incident =
     [(''incidentId'', JStr ''INC-1''), (''severity'', JStr ''Critical''), (''title'', JStr ''X'')]"

definition demo_incident_again :: dict where
  "demo_incident_again =
     [(''incidentId'', JStr ''INC-1''), (''severity'', JStr ''Low''),
      (''title'', JStr ''X, seen again'')]"

text \<open>What every document of the ingest path carries, besides the incident's own fields.\<close>

definition carries_ingest_fields :: "string \<Rightarrow> dict \<Rightarrow> dict \<Rightarrow> bool" where
  "carries_ingest_fields processed payload doc =
     (map_of doc ''document_type'' = Some (JStr ''security_incident'') \<and>
      map_of doc ''action_plan_status'' = Some (JStr ''Pending'') \<and>
      map_of doc ''processed_time'' = Some (JStr processed) \<and>
      map_of doc ''raw_data'' = Some (JObj payload))"

text \<open>The store identifier and the retained payload of each document of a list.\<close>

definition ids_and_payloads :: "dict list \<Rightarrow> (json \<times> json) list" where
  "ids_and_payloads ds = map (\<lambda>d. (get d ''id'', get d ''raw_data'')) ds"

text \<open>The same deployment while Cosmos DB is unreachable.\<close>

definition outage_env :: env where
  "outage_env = demo_env\<lparr>cosmos_fault := Some ''Service Unavailable''\<rparr>"

definition update_request :: json where
  "update_request = JObj [(''document_id'', JStr ''no-such-document''), (''action_status'', JStr ''Completed'')]"

text \<open>
  A container with two incident documents and a document of another type, behind an engine
  that honours \<^verbatim>\<open>TOP\<close> and answers any other text with nothing.
\<close>

definition low_doc :: dict where
  "low_doc = [(''id'', JStr ''doc-low''), (''document_type'', JStr ''security_incident''),
              (''severity_level'', JInt 2)]"

definition critical_doc :: dict where
  "critical_doc = [(''id'', JStr ''doc-critical''), (''document_type'', JStr ''security_incident''),
                   (''severity_level'', JInt 5)]"

definition other_doc :: dict where
  "other_doc = [(''id'', JStr ''doc-other''), (''document_type'', JStr ''audit_note''),
                (''severity_level'', JInt 9)]"

definition sampling_env :: env where
  "sampling_env =
     demo_env\<lparr>run_sql := (\<lambda>sql ds. case top_query sql of
                                       Some n \<Rightarrow> Inr (map JObj (top_by_severity (int n) ds))
                                     | None \<Rightarrow> Inr [])\<rparr>"

text \<open>An incident wrapped in a \<^verbatim>\<open>properties\<close> envelope, named by its aliases only.\<close>

definition wrapped_body :: dict where
  "wrapped_body =
     [(''name'', JStr ''envelope''),
      (''properties'', JObj [(''incidentName'', JStr ''Y''), (''id'', JStr ''42'')])]"

text \<open>An incident whose severity is a list.\<close>

definition list_severity_incident :: dict where
  "list_severity_incident = [(''incidentId'', JStr ''INC-2''), (''severity'', JList [JStr ''High''])]"

section \<open>Properties\<close>

subsection \<open>Initialisation and the container\<close>

lemma ensure_initialized_frame:
  "docs (snd (ensure_initialized E s)) = docs s \<and> trace (snd (ensure_initialized E s)) = trace s"
  by (simp add: ensure_initialized_def setup_cosmos_client_def setup_openai_client_def
           split: option.splits sum.splits)

lemma ensure_initialized_docs:
  "ensure_initialized E s = (r, s1) \<Longrightarrow> docs s1 = docs s"
  using ensure_initialized_frame [of E s] by simp

lemma ensure_initialized_trace:
  "ensure_initialized E s = (r, s1) \<Longrightarrow> trace s1 = trace s"
  using ensure_initialized_frame [of E s] by simp

lemma create_item_Inr:
  "create_item E doc s = (Inr r, s') \<Longrightarrow>
     r = doc \<and> docs s' = docs s @ [doc] \<and> trace s' = trace s @ [CreateItem doc] \<and>
     \<not> (\<exists>d \<in> set (docs s). has_id (get doc ''id'') d)"
  by (auto simp: create_item_def called_def Let_def split: option.splits if_splits)

lemma create_item_Inl:
  "create_item E doc s = (Inl e, s') \<Longrightarrow> docs s' = docs s"
  by (auto simp: create_item_def called_def Let_def split: option.splits if_splits)

lemma store_incident_Inr:
  assumes "store_incident E uuid utcnow d a s = (Inr r, s')"
  shows "\<exists>doc. incident_document uuid utcnow d a = Inr doc \<and> docs s' = docs s @ [doc] \<and>
           \<not> (\<exists>x \<in> set (docs s). has_id (get doc ''id'') x)"
proof -
  obtain u s1 where init: "ensure_initialized E s = (Inr u, s1)"
    using assms by (auto simp: store_incident_def split: prod.splits sum.splits)
  then obtain doc where doc: "incident_document uuid utcnow d a = Inr doc"
    using assms by (auto simp: store_incident_def split: prod.splits sum.splits if_splits)
  then obtain r0 where "create_item E doc s1 = (Inr r0, s')"
    using assms init by (auto simp: store_incident_def split: prod.splits sum.splits if_splits)
  from create_item_Inr [OF this] ensure_initialized_docs [OF init] doc show ?thesis by auto
qed

lemma store_incident_Inl:
  assumes "store_incident E uuid utcnow d a s = (Inl e, s')"
  shows "docs s' = docs s"
proof -
  obtain r1 s1 where init: "ensure_initialized E s = (r1, s1)"
    by (cases "ensure_initialized E s")
  have s1: "docs s1 = docs s"
    using ensure_initialized_docs [OF init] .
  show ?thesis
  proof (cases "create_item E (projr (incident_document uuid utcnow d a)) s1")
    case (Pair r2 s2)
    have "docs s2 = docs s1" if "r2 = Inl e2" for e2
      using Pair that create_item_Inl by blast
    then show ?thesis
      using assms init s1 Pair
      by (auto simp: store_incident_def split: sum.splits if_splits)
  qed
qed

lemma incident_document_fields:
  assumes "incident_document uuid utcnow d a = Inr doc"
  shows "map_of doc ''id'' = Some (JStr uuid)"
    and "map_of doc ''document_type'' = Some (JStr ''security_incident'')"
    and "map_of doc ''incident_id'' = Some (py_or (get d ''incidentId'') (get d ''id''))"
    and "map_of doc ''action_plan_status'' = Some (JStr ''Pending'')"
    and "map_of doc ''processed_time'' = Some (JStr (utcnow 2))"
    and "map_of doc ''raw_data'' = Some (JObj d)"
    and "map_of doc ''entities'' = Some (get_default d ''relatedEntities'' (JList []))"
    and "map_of doc ''alerts'' = Some (get_default d ''relatedAlerts'' (JList []))"
    and "map_of doc ''title'' = Some (py_or (get d ''title'') (get d ''incidentName''))"
    and "map_of doc ''severity'' = Some (get d ''severity'')"
    and "map_of doc ''analysis'' = Some a"
proof -
  obtain level where "doc = [(''id'', JStr uuid),
               (''document_type'', JStr ''security_incident''),
               (''incident_id'', py_or (get d ''incidentId'') (get d ''id'')),
               (''title'', py_or (get d ''title'') (get d ''incidentName'')),
               (''severity'', get d ''severity''),
               (''severity_level'', level),
               (''status'', get_default d ''status'' (JStr ''New'')),
               (''created_time'', get_default d ''createdTimeUtc'' (JStr (utcnow 0))),
               (''last_modified_time'',
                  get_default d ''lastModifiedTimeUtc'' (JStr (utcnow 1))),
               (''description'', get d ''description''),
               (''tactics'', get_default d ''tactics'' (JList [])),
               (''techniques'', get_default d ''techniques'' (JList [])),
               (''entities'', get_default d ''relatedEntities'' (JList [])),
               (''alerts'', get_default d ''relatedAlerts'' (JList [])),
               (''analysis'', a),
               (''action_plan_status'', JStr ''Pending''),
               (''processed_time'', JStr (utcnow 2)),
               (''raw_data'', JObj d)]"
    using assms unfolding incident_document_def by (auto split: sum.splits)
  then show "map_of doc ''id'' = Some (JStr uuid)"
    and "map_of doc ''document_type'' = Some (JStr ''security_incident'')"
    and "map_of doc ''incident_id'' = Some (py_or (get d ''incidentId'') (get d ''id''))"
    and "map_of doc ''action_plan_status'' = Some (JStr ''Pending'')"
    and "map_of doc ''processed_time'' = Some (JStr (utcnow 2))"
    and "map_of doc ''raw_data'' = Some (JObj d)"
    and "map_of doc ''entities'' = Some (get_default d ''relatedEntities'' (JList []))"
    and "map_of doc ''alerts'' = Some (get_default d ''relatedAlerts'' (JList []))"
    and "map_of doc ''title'' = Some (py_or (get d ''title'') (get d ''incidentName''))"
    and "map_of doc ''severity'' = Some (get d ''severity'')"
    and "map_of doc ''analysis'' = Some a"
    by simp_all
qed


lemma severity_table_rank:
  "(case map_of SEVERITY_LEVELS t of None \<Rightarrow> 0 | Some n \<Rightarrow> n) = severity_rank (Some (JStr t))"
  by (simp add: SEVERITY_LEVELS_def severity_rank_def)

lemma severity_levels_get_rank:
  assumes "severity_levels_get (get_default d ''severity'' (JStr ''Unknown'')) = Inr level"
  shows "level = JInt (severity_rank (map_of d ''severity''))"
proof (cases "map_of d ''severity''")
  case None
  then show ?thesis
    using assms by (simp add: get_default_def SEVERITY_LEVELS_def severity_rank_def)
next
  case (Some v)
  then have lookup: "severity_levels_get v = Inr level"
    using assms by (simp add: get_default_def)
  show ?thesis
  proof (cases v)
    case (JStr t)
    then show ?thesis
      using lookup Some severity_table_rank [of t] by simp
  qed (use lookup Some in \<open>simp_all add: severity_rank_def\<close>)
qed

lemma severity_levels_get_raises:
  assumes "severity_levels_get (get_default d ''severity'' (JStr ''Unknown'')) = Inl e"
  shows "(\<exists>xs. map_of d ''severity'' = Some (JList xs)) \<or> (\<exists>m. map_of d ''severity'' = Some (JObj m))"
proof (cases "map_of d ''severity''")
  case None
  then show ?thesis using assms by (simp add: get_default_def)
next
  case (Some v)
  then show ?thesis using assms by (cases v) (simp_all add: get_default_def)
qed

lemma incident_document_level:
  assumes "incident_document uuid utcnow d a = Inr doc"
  shows "map_of doc ''severity_level'' = Some (JInt (severity_rank (map_of d ''severity'')))"
proof (cases "severity_levels_get (get_default d ''severity'' (JStr ''Unknown''))")
  case (Inl e)
  then show ?thesis
    using assms by (simp add: incident_document_def)
next
  case (Inr level)
  then have "map_of doc ''severity_level'' = Some level"
    using assms by (auto simp: incident_document_def)
  then show ?thesis
    using severity_levels_get_rank [OF Inr] by simp
qed

lemma store_incident_ready:
  assumes "initialized s" and "container s" and "cosmos_fault E = None"
    and "incident_document uuid utcnow d a = Inr doc"
    and "\<not> (\<exists>x \<in> set (docs s). has_id (JStr uuid) x)"
  shows "store_incident E uuid utcnow d a s =
           (Inr [(''success'', JBool True), (''document_id'', JStr uuid),
                 (''incident_id'', py_or (get d ''incidentId'') (get d ''id''))],
            s\<lparr>trace := trace s @ [CreateItem doc], docs := docs s @ [doc]\<rparr>)"
proof -
  have "get doc ''id'' = JStr uuid" and "get doc ''incident_id'' = py_or (get d ''incidentId'') (get d ''id'')"
    using incident_document_fields(1,3) [OF assms(4)] by (simp_all add: get_def)
  then show ?thesis
    using assms by (simp add: store_incident_def ensure_initialized_def create_item_def called_def)
qed

subsection \<open>The concrete deployment\<close>

lemma demo_env_fields:
  "COSMOS_ENDPOINT demo_env = Some ''https://cosmos.example''"
  "AZURE_OPENAI_ENDPOINT demo_env = Some ''https://openai.example''"
  "loads demo_env = demo_loads"
  "py_repr demo_env = (\<lambda>v. ''<repr>'')"
  "dumps demo_env = (\<lambda>v. ''<json>'')"
  "run_sql demo_env = (\<lambda>sql ds. Inr (map JObj (top_by_severity 100 ds)))"
  "cosmos_fault demo_env = None"
  "not_found_text demo_env = ''(NotFound) Entity with the specified id does not exist in the system.''"
  "conflict_text demo_env = ''(Conflict) Entity with the specified id already exists in the system.''"
  by (simp_all add: demo_env_def)

lemma demo_init:
  "ensure_initialized demo_env (new_processor ds) =
     (Inr (), \<lparr>initialized = True, container = True, openai_client = True, docs = ds, trace = []\<rparr>)"
  by (simp add: ensure_initialized_def setup_cosmos_client_def setup_openai_client_def
        demo_env_fields new_processor_def)

lemma str_nat_0: "str_nat 0 = ''0''"
  by code_simp

lemma demo_store:
  "store_incident demo_env ''doc-1'' at_noon demo_incident (JObj []) (new_processor [])
   = (Inr [(''success'', JBool True), (''document_id'', JStr ''doc-1''), (''incident_id'', JStr ''INC-1'')],
      snd (store_incident demo_env ''doc-1'' at_noon demo_incident (JObj []) (new_processor [])))"
  by (simp add: store_incident_def demo_init incident_document_def demo_incident_def get_def
        get_default_def SEVERITY_LEVELS_def py_or_def create_item_def called_def demo_env_fields)


lemma ensure_initialized_done:
  "initialized s \<Longrightarrow> ensure_initialized E s = (Inr (), s)"
  by (simp add: ensure_initialized_def)

lemma demo_store_again:
  "fst (store_incident demo_env ''doc-2'' at_noon demo_incident_again (JObj [])
     (snd (store_incident demo_env ''doc-1'' at_noon demo_incident (JObj []) (new_processor []))))
   = Inr [(''success'', JBool True), (''document_id'', JStr ''doc-2''), (''incident_id'', JStr ''INC-1'')]"
  by (simp add: store_incident_def demo_init incident_document_def demo_incident_def
        demo_incident_again_def get_def ensure_initialized_done has_id_def
        get_default_def SEVERITY_LEVELS_def py_or_def create_item_def called_def demo_env_fields)

subsection \<open>Severity rank\<close>

lemma incident_document_scalar:
  assumes "\<forall>xs. map_of d ''severity'' \<noteq> Some (JList xs)"
    and "\<forall>m. map_of d ''severity'' \<noteq> Some (JObj m)"
  shows "\<exists>doc. incident_document uuid utcnow d a = Inr doc"
proof (cases "incident_document uuid utcnow d a")
  case (Inl e)
  then have "severity_levels_get (get_default d ''severity'' (JStr ''Unknown'')) = Inl e"
    unfolding incident_document_def by (auto split: sum.splits)
  then show ?thesis
    using severity_levels_get_raises [of d e] assms by blast
next
  case (Inr doc)
  then show ?thesis
    by blast
qed

lemma demo_store_list_severity:
  "store_incident demo_env ''doc-1'' at_noon list_severity_incident (JObj []) (new_processor [])
   = (Inl (TypeError (''unhashable type: '' @ squote ''list'')),
      \<lparr>initialized = True, container = True, openai_client = True, docs = [], trace = []\<rparr>)"
  by (simp add: store_incident_def demo_init incident_document_def list_severity_incident_def
        get_default_def)

lemma demo_receive_list_severity:
  "sentinel_receiver demo_env (Inr (JObj list_severity_incident)) (Inr ''{}'') ''doc-1'' at_noon
     ''2025-01-01T12:00:00'' (new_processor [])
   = (\<lparr>status_code = 400,
       body = JObj [(''success'', JBool False),
                    (''error'', JStr (''unhashable type: '' @ squote ''list'')),
                    (''timestamp'', JStr ''2025-01-01T12:00:00'')]\<rparr>,
      \<lparr>initialized = True, container = True, openai_client = True, docs = [],
        trace = [ChatCompletion [''Unknown incident'', ''<repr>'', [], ''None identified'', ''0'',
                                 ''No entities'']]\<rparr>)"
  by (simp add: sentinel_receiver_def sentinel_receiver_try_def unwrap_incident_def key_fields_def
        list_severity_incident_def get_def get_default_def py_or_def analyze_incident_def demo_init
        user_message_def py_str_def str_nat_0 called_def demo_env_fields demo_loads_def
        store_incident_def ensure_initialized_done incident_document_def failure_def Let_def)

text \<open>
  C6 claims the rank for every raw severity value, with level 0 stored for any
  unrecognized one. A severity that is a list, such as \<^verbatim>\<open>["High"]\<close>, is no dictionary
  key: \<^verbatim>\<open>SEVERITY_LEVELS.get\<close> raises \<^verbatim>\<open>TypeError\<close>, \<^verbatim>\<open>store_incident\<close>
  raises with nothing stored, and the receiver answers 400 after the analysis was made.
\<close>

theorem severity_level_counterexample:
  "store_incident demo_env ''doc-1'' at_noon list_severity_incident (JObj []) (new_processor [])
   = (Inl (TypeError (''unhashable type: '' @ squote ''list'')),
      \<lparr>initialized = True, container = True, openai_client = True, docs = [], trace = []\<rparr>)
   \<and> sentinel_receiver demo_env (Inr (JObj list_severity_incident)) (Inr ''{}'') ''doc-1'' at_noon
       ''2025-01-01T12:00:00'' (new_processor [])
   = (\<lparr>status_code = 400,
       body = JObj [(''success'', JBool False),
                    (''error'', JStr (''unhashable type: '' @ squote ''list'')),
                    (''timestamp'', JStr ''2025-01-01T12:00:00'')]\<rparr>,
      \<lparr>initialized = True, container = True, openai_client = True, docs = [],
        trace = [ChatCompletion [''Unknown incident'', ''<repr>'', [], ''None identified'', ''0'',
                                 ''No entities'']]\<rparr>)"
  using demo_store_list_severity demo_receive_list_severity by simp

text \<open>
  C6, as the code has it. For every incident whose severity is absent or a JSON scalar (a
  string, a number, a boolean or null), the document is built without an error and its
  level is the fixed rank of the severity: Informational 1, Low 2, Medium 3, High 4,
  Critical 5, and 0 for every other or absent severity. Whenever \<^verbatim>\<open>store_incident\<close>
  succeeds, the one document it appended carries that rank; and it does succeed, storing
  that document, once the processor is initialised, the database is reachable and the
  fresh identifier is not taken.
\<close>

theorem stored_severity_level:
  assumes "\<forall>xs. map_of d ''severity'' \<noteq> Some (JList xs)"
    and "\<forall>m. map_of d ''severity'' \<noteq> Some (JObj m)"
  shows "(\<exists>doc. incident_document uuid utcnow d a = Inr doc \<and>
            map_of doc ''severity_level'' = Some (JInt (severity_rank (map_of d ''severity''))))
       \<and> (\<forall>r s'. store_incident E uuid utcnow d a s = (Inr r, s') \<longrightarrow>
            (\<exists>doc. docs s' = docs s @ [doc] \<and>
               map_of doc ''severity_level'' = Some (JInt (severity_rank (map_of d ''severity'')))))
       \<and> (initialized s \<and> container s \<and> cosmos_fault E = None \<and>
          \<not> (\<exists>x \<in> set (docs s). has_id (JStr uuid) x) \<longrightarrow>
            (\<exists>r doc. store_incident E uuid utcnow d a s =
                        (Inr r, s\<lparr>trace := trace s @ [CreateItem doc], docs := docs s @ [doc]\<rparr>) \<and>
               map_of r ''success'' = Some (JBool True) \<and>
               map_of doc ''severity_level'' = Some (JInt (severity_rank (map_of d ''severity'')))))"
proof (intro conjI allI impI)
  obtain doc where built: "incident_document uuid utcnow d a = Inr doc"
    using incident_document_scalar [OF assms] by blast
  then show "\<exists>doc. incident_document uuid utcnow d a = Inr doc \<and>
            map_of doc ''severity_level'' = Some (JInt (severity_rank (map_of d ''severity'')))"
    using incident_document_level by blast
next
  fix r s'
  assume "store_incident E uuid utcnow d a s = (Inr r, s')"
  then obtain doc where "incident_document uuid utcnow d a = Inr doc" and "docs s' = docs s @ [doc]"
    using store_incident_Inr by blast
  then show "\<exists>doc. docs s' = docs s @ [doc] \<and>
               map_of doc ''severity_level'' = Some (JInt (severity_rank (map_of d ''severity'')))"
    using incident_document_level by blast
next
  assume ready: "initialized s \<and> container s \<and> cosmos_fault E = None \<and>
                 \<not> (\<exists>x \<in> set (docs s). has_id (JStr uuid) x)"
  obtain doc where built: "incident_document uuid utcnow d a = Inr doc"
    using incident_document_scalar [OF assms] by blast
  have "store_incident E uuid utcnow d a s =
           (Inr [(''success'', JBool True), (''document_id'', JStr uuid),
                 (''incident_id'', py_or (get d ''incidentId'') (get d ''id''))],
            s\<lparr>trace := trace s @ [CreateItem doc], docs := docs s @ [doc]\<rparr>)"
    using ready built by (intro store_incident_ready) simp_all
  moreover have "map_of doc ''severity_level'' = Some (JInt (severity_rank (map_of d ''severity'')))"
    using built by (rule incident_document_level)
  ultimately show "\<exists>r doc. store_incident E uuid utcnow d a s =
                        (Inr r, s\<lparr>trace := trace s @ [CreateItem doc], docs := docs s @ [doc]\<rparr>) \<and>
               map_of r ''success'' = Some (JBool True) \<and>
               map_of doc ''severity_level'' = Some (JInt (severity_rank (map_of d ''severity'')))"
    by (auto simp: map_of_Cons_code)
qed

text \<open>
  The specification's scenario: an incident of severity Critical is stored with level 5;
  and a document built for a severity that is no level gets level 0.
\<close>

theorem stored_severity_level_witness:
  "(\<exists>doc. docs (snd (store_incident demo_env ''doc-1'' at_noon demo_incident (JObj []) (new_processor [])))
             = [doc] \<and> map_of doc ''severity_level'' = Some (JInt 5))
   \<and> (case incident_document ''doc-2'' at_noon [(''incidentId'', JStr ''INC-3''), (''severity'', JStr ''Severe'')]
              (JObj []) of
        Inr doc \<Rightarrow> map_of doc ''severity_level'' = Some (JInt 0)
      | Inl e \<Rightarrow> False)"
proof -
  have scalar: "\<forall>xs. map_of demo_incident ''severity'' \<noteq> Some (JList xs)"
               "\<forall>m. map_of demo_incident ''severity'' \<noteq> Some (JObj m)"
    by (simp_all add: demo_incident_def)
  have "severity_rank (map_of demo_incident ''severity'') = 5"
    by (simp add: demo_incident_def severity_rank_def)
  moreover have "docs (new_processor []) = []"
    by (simp add: new_processor_def)
  ultimately have first:
    "\<exists>doc. docs (snd (store_incident demo_env ''doc-1'' at_noon demo_incident (JObj []) (new_processor [])))
             = [doc] \<and> map_of doc ''severity_level'' = Some (JInt 5)"
    using stored_severity_level [OF scalar, where uuid = "''doc-1''" and utcnow = at_noon
          and a = "JObj []" and E = demo_env and s = "new_processor []"]
      demo_store
    by simp
  let ?d = "[(''incidentId'', JStr ''INC-3''), (''severity'', JStr ''Severe'')]"
  have other: "\<forall>xs. map_of ?d ''severity'' \<noteq> Some (JList xs)" "\<forall>m. map_of ?d ''severity'' \<noteq> Some (JObj m)"
    by simp_all
  have "severity_rank (map_of ?d ''severity'') = 0"
    by (simp add: severity_rank_def)
  then have second: "case incident_document ''doc-2'' at_noon ?d (JObj []) of
        Inr doc \<Rightarrow> map_of doc ''severity_level'' = Some (JInt 0)
      | Inl e \<Rightarrow> False"
    using stored_severity_level [OF other, where uuid = "''doc-2''" and utcnow = at_noon
          and a = "JObj []" and E = demo_env and s = "new_processor []"]
    by auto
  from first second show ?thesis
    by blast
qed

subsection \<open>The documents the ingest path writes\<close>

lemma analyze_incident_docs:
  "docs (snd (analyze_incident E chat d s)) = docs s"
proof (cases "ensure_initialized E s")
  case (Pair r s1)
  then have "docs s1 = docs s"
    by (rule ensure_initialized_docs)
  then show ?thesis
    using Pair
    by (auto simp: analyze_incident_def called_def Let_def split: sum.splits)
qed

lemma store_incident_writes:
  "(case store_incident E uuid utcnow d a s of
      (Inr r, s') \<Rightarrow> (\<exists>doc. docs s' = docs s @ [doc] \<and> carries_ingest_fields (utcnow 2) d doc)
    | (Inl e, s') \<Rightarrow> docs s' = docs s)"
proof (cases "store_incident E uuid utcnow d a s")
  case (Pair r s')
  show ?thesis
  proof (cases r)
    case (Inl e)
    then show ?thesis
      using Pair store_incident_Inl by auto
  next
    case (Inr ok)
    then obtain doc where "incident_document uuid utcnow d a = Inr doc" and "docs s' = docs s @ [doc]"
      using Pair store_incident_Inr by blast
    then show ?thesis
      using Pair Inr incident_document_fields [of uuid utcnow d a doc]
      by (simp add: carries_ingest_fields_def)
  qed
qed

lemma key_fields_Inr:
  "key_fields incident = Inr (d, t, sev, i) \<Longrightarrow> incident = JObj d"
  by (cases incident) (simp_all add: key_fields_def)

lemma sentinel_receiver_try_writes:
  assumes "sentinel_receiver_try E rq chat uuid utcnow now s = (r, s')"
  shows "docs s' = docs s \<or>
         (\<exists>doc incident request_body. rq = Inr request_body \<and>
            unwrap_incident request_body = Inr (JObj incident) \<and>
            docs s' = docs s @ [doc] \<and> carries_ingest_fields (utcnow 2) incident doc)"
proof (cases rq)
  case (Inl e)
  then show ?thesis using assms by (simp add: sentinel_receiver_try_def)
next
  case body: (Inr request_body)
  show ?thesis
  proof (cases "unwrap_incident request_body")
    case (Inl e)
    then show ?thesis using assms body by (simp add: sentinel_receiver_try_def)
  next
    case incident: (Inr incident)
    show ?thesis
    proof (cases "key_fields incident")
      case (Inl e)
      then show ?thesis using assms body incident by (simp add: sentinel_receiver_try_def)
    next
      case (Inr fields)
      then obtain d t sev i where fields: "key_fields incident = Inr (d, t, sev, i)"
        by (cases fields) auto
      then have obj: "incident = JObj d"
        by (rule key_fields_Inr)
      obtain ra s1 where an: "analyze_incident E chat d s = (ra, s1)"
        by (cases "analyze_incident E chat d s")
      then have s1: "docs s1 = docs s"
        using analyze_incident_docs [of E chat d s] by simp
      show ?thesis
      proof (cases ra)
        case (Inl e)
        then show ?thesis
          using assms body incident fields an s1 by (simp add: sentinel_receiver_try_def)
      next
        case analysis: (Inr analysis)
        obtain rs s2 where st: "store_incident E uuid utcnow d analysis s1 = (rs, s2)"
          by (cases "store_incident E uuid utcnow d analysis s1")
        have s': "s' = s2"
          using assms body incident fields an analysis st
          by (auto simp: sentinel_receiver_try_def split: sum.splits json.splits)
        show ?thesis
        proof (cases rs)
          case (Inl e)
          then show ?thesis
            using store_incident_writes [where E = E and uuid = uuid and utcnow = utcnow and d = d and a = analysis and s = s1] st s1 s' by simp
        next
          case (Inr ok)
          then obtain doc where "docs s2 = docs s1 @ [doc]" and "carries_ingest_fields (utcnow 2) d doc"
            using store_incident_writes [where E = E and uuid = uuid and utcnow = utcnow and d = d and a = analysis and s = s1] st by auto
          then show ?thesis
            using body incident obj s1 s' by auto
        qed
      qed
    qed
  qed
qed

lemma unwrap_incident_cases:
  assumes "unwrap_incident v = Inr (JObj incident)"
  shows "\<exists>request_body. v = JObj request_body \<and>
           ((\<not> truthy (get request_body ''properties'') \<and> incident = request_body) \<or>
            (get request_body ''properties'' = JObj incident \<and> incident \<noteq> []))"
proof (cases v)
  case (JObj request_body)
  show ?thesis
  proof (cases "truthy (get request_body ''properties'')")
    case True
    then have "get request_body ''properties'' = JObj incident"
      using assms JObj by (simp add: unwrap_incident_def py_or_def)
    then show ?thesis
      using True JObj by auto
  next
    case False
    then show ?thesis
      using assms JObj by (simp add: unwrap_incident_def py_or_def)
  qed
qed (use assms in \<open>simp_all add: unwrap_incident_def\<close>)

lemma demo_receive_wrapped:
  "docs (snd (sentinel_receiver demo_env (Inr (JObj wrapped_body)) (Inr ''{}'') ''doc-1'' at_noon
               ''2025-01-01T12:00:00'' (new_processor [])))
   = [projr (incident_document ''doc-1'' at_noon [(''incidentName'', JStr ''Y''), (''id'', JStr ''42'')]
               (JObj []))]"
  by (simp add: sentinel_receiver_def sentinel_receiver_try_def unwrap_incident_def key_fields_def
        wrapped_body_def get_def get_default_def py_or_def analyze_incident_def demo_init
        user_message_def py_str_def str_nat_0 called_def demo_env_fields demo_loads_def
        store_incident_def ensure_initialized_done incident_document_def create_item_def
        SEVERITY_LEVELS_def Let_def)

text \<open>
  C9 claims that \<^verbatim>\<open>raw_data\<close> is the exact input payload. The receiver stores the
  incident it unwrapped: for a request body with a \<^verbatim>\<open>properties\<close> envelope the
  document keeps the inner object and the other members of the body are not retained.
\<close>

theorem ingest_raw_data_counterexample:
  "ids_and_payloads
     (docs (snd (sentinel_receiver demo_env (Inr (JObj wrapped_body)) (Inr ''{}'') ''doc-1'' at_noon
                   ''2025-01-01T12:00:00'' (new_processor []))))
   = [(JStr ''doc-1'', JObj [(''incidentName'', JStr ''Y''), (''id'', JStr ''42'')])]
   \<and> JObj [(''incidentName'', JStr ''Y''), (''id'', JStr ''42'')] \<noteq> JObj wrapped_body"
  unfolding demo_receive_wrapped
  by (simp add: ids_and_payloads_def incident_document_def get_def get_default_def wrapped_body_def)

text \<open>
  C9, as the code has it. Every document written by the ingest path carries the document
  type \<^verbatim>\<open>security_incident\<close>, the action plan status \<^verbatim>\<open>Pending\<close>, the processing
  time and, as \<^verbatim>\<open>raw_data\<close>, the incident that \<^verbatim>\<open>store_incident\<close> was given,
  unchanged. \<^verbatim>\<open>store_incident\<close> appends exactly one such document when it succeeds
  and none when it fails. \<^verbatim>\<open>sentinel_receiver\<close> writes nothing or one such document,
  and the incident it hands over is the request body itself when the body has no
  \<^verbatim>\<open>properties\<close> member or an empty one, and the \<^verbatim>\<open>properties\<close> object otherwise.
\<close>

theorem ingest_document_fields:
  "(case store_incident E uuid utcnow d a s of
      (Inr r, s') \<Rightarrow> (\<exists>doc. docs s' = docs s @ [doc] \<and> carries_ingest_fields (utcnow 2) d doc)
    | (Inl e, s') \<Rightarrow> docs s' = docs s)
   \<and> (case sentinel_receiver E rq chat uuid utcnow now s of
        (response, s') \<Rightarrow>
          docs s' = docs s \<or>
          (\<exists>doc incident request_body. rq = Inr (JObj request_body) \<and>
             ((\<not> truthy (get request_body ''properties'') \<and> incident = request_body) \<or>
              (get request_body ''properties'' = JObj incident \<and> incident \<noteq> [])) \<and>
             docs s' = docs s @ [doc] \<and> carries_ingest_fields (utcnow 2) incident doc))"
proof -
  obtain r s1 where run: "sentinel_receiver_try E rq chat uuid utcnow now s = (r, s1)"
    by (cases "sentinel_receiver_try E rq chat uuid utcnow now s")
  then have state: "snd (sentinel_receiver E rq chat uuid utcnow now s) = s1"
    by (simp add: sentinel_receiver_def split: sum.splits)
  have "docs s1 = docs s \<or>
          (\<exists>doc incident request_body. rq = Inr (JObj request_body) \<and>
             ((\<not> truthy (get request_body ''properties'') \<and> incident = request_body) \<or>
              (get request_body ''properties'' = JObj incident \<and> incident \<noteq> [])) \<and>
             docs s1 = docs s @ [doc] \<and> carries_ingest_fields (utcnow 2) incident doc)"
  proof (cases "docs s1 = docs s")
    case True
    then show ?thesis by simp
  next
    case False
    then obtain doc incident v where v: "rq = Inr v" "unwrap_incident v = Inr (JObj incident)"
      and written: "docs s1 = docs s @ [doc]" "carries_ingest_fields (utcnow 2) incident doc"
      using sentinel_receiver_try_writes [OF run] by blast
    obtain request_body where "v = JObj request_body"
      and "(\<not> truthy (get request_body ''properties'') \<and> incident = request_body) \<or>
           (get request_body ''properties'' = JObj incident \<and> incident \<noteq> [])"
      using unwrap_incident_cases [OF v(2)] by blast
    then show ?thesis
      using v(1) written by blast
  qed
  then show ?thesis
    using state store_incident_writes [where E = E and uuid = uuid and utcnow = utcnow and d = d and a = a and s = s]
    by (auto split: prod.splits)
qed

text \<open>
  The scenario incident stored directly, and the enveloped incident received: the document
  written for it retains the inner object.
\<close>

theorem ingest_document_fields_witness:
  "(\<exists>doc. docs (snd (store_incident demo_env ''doc-1'' at_noon demo_incident (JObj []) (new_processor [])))
            = [doc] \<and>
         map_of doc ''document_type'' = Some (JStr ''security_incident'') \<and>
         map_of doc ''action_plan_status'' = Some (JStr ''Pending'') \<and>
         map_of doc ''processed_time'' = Some (JStr ''2025-01-01T12:00:00'') \<and>
         map_of doc ''raw_data'' = Some (JObj demo_incident))
   \<and> (\<exists>doc. docs (snd (sentinel_receiver demo_env (Inr (JObj wrapped_body)) (Inr ''{}'') ''doc-1'' at_noon
                           ''2025-01-01T12:00:00'' (new_processor [])))
            = [doc] \<and>
         map_of doc ''document_type'' = Some (JStr ''security_incident'') \<and>
         map_of doc ''action_plan_status'' = Some (JStr ''Pending'') \<and>
         map_of doc ''processed_time'' = Some (JStr ''2025-01-01T12:00:00'') \<and>
         map_of doc ''raw_data'' = Some (JObj [(''incidentName'', JStr ''Y''), (''id'', JStr ''42'')]))"
proof -
  let ?run = "store_incident demo_env ''doc-1'' at_noon demo_incident (JObj []) (new_processor [])"
  let ?received = "sentinel_receiver demo_env (Inr (JObj wrapped_body)) (Inr ''{}'') ''doc-1'' at_noon
                     ''2025-01-01T12:00:00'' (new_processor [])"
  note inst = ingest_document_fields [where E = demo_env and uuid = "''doc-1''" and utcnow = at_noon
          and d = demo_incident and a = "JObj []" and s = "new_processor []"
          and rq = "Inr (JObj wrapped_body)" and chat = "Inr ''{}''" and now = "''2025-01-01T12:00:00''"]
  have "case ?run of
          (Inr r, s') \<Rightarrow> (\<exists>doc. docs s' = docs (new_processor []) @ [doc] \<and>
                             carries_ingest_fields (at_noon 2) demo_incident doc)
        | (Inl e, s') \<Rightarrow> docs s' = docs (new_processor [])"
    using inst by (rule conjunct1)
  moreover obtain ok where "?run = (Inr ok, snd ?run)"
    using demo_store by blast
  ultimately have "\<exists>doc. docs (snd ?run) = docs (new_processor []) @ [doc] \<and>
                     carries_ingest_fields (at_noon 2) demo_incident doc"
    by (simp split: prod.splits sum.splits)
  then have first: "\<exists>doc. docs (snd ?run) = [doc] \<and>
         map_of doc ''document_type'' = Some (JStr ''security_incident'') \<and>
         map_of doc ''action_plan_status'' = Some (JStr ''Pending'') \<and>
         map_of doc ''processed_time'' = Some (JStr ''2025-01-01T12:00:00'') \<and>
         map_of doc ''raw_data'' = Some (JObj demo_incident)"
    by (simp add: carries_ingest_fields_def at_noon_def new_processor_def)
  have envelope: "get wrapped_body ''properties'' = JObj [(''incidentName'', JStr ''Y''), (''id'', JStr ''42'')]"
    by (simp add: wrapped_body_def get_def)
  have "docs (snd ?received) = docs (new_processor []) \<or>
          (\<exists>doc incident request_body. Inr (JObj wrapped_body) = (Inr (JObj request_body) :: error + json) \<and>
             ((\<not> truthy (get request_body ''properties'') \<and> incident = request_body) \<or>
              (get request_body ''properties'' = JObj incident \<and> incident \<noteq> [])) \<and>
             docs (snd ?received) = docs (new_processor []) @ [doc] \<and>
             carries_ingest_fields (at_noon 2) incident doc)"
    using inst by (simp split: prod.splits)
  moreover have "docs (snd ?received) \<noteq> docs (new_processor [])"
    unfolding demo_receive_wrapped by (simp add: new_processor_def)
  ultimately obtain doc incident where
    "(\<not> truthy (get wrapped_body ''properties'') \<and> incident = wrapped_body) \<or>
     (get wrapped_body ''properties'' = JObj incident \<and> incident \<noteq> [])"
    and "docs (snd ?received) = docs (new_processor []) @ [doc]"
    and "carries_ingest_fields (at_noon 2) incident doc"
    by auto
  then have second: "\<exists>doc. docs (snd ?received) = [doc] \<and>
         map_of doc ''document_type'' = Some (JStr ''security_incident'') \<and>
         map_of doc ''action_plan_status'' = Some (JStr ''Pending'') \<and>
         map_of doc ''processed_time'' = Some (JStr ''2025-01-01T12:00:00'') \<and>
         map_of doc ''raw_data'' = Some (JObj [(''incidentName'', JStr ''Y''), (''id'', JStr ''42'')])"
    using envelope by (auto simp: carries_ingest_fields_def at_noon_def new_processor_def)
  from first second show ?thesis
    by blast
qed

subsection \<open>Persisting the same incident twice\<close>

lemma demo_stored_twice:
  "docs (snd (store_incident demo_env ''doc-2'' at_noon demo_incident_again (JObj [])
     (snd (store_incident demo_env ''doc-1'' at_noon demo_incident (JObj []) (new_processor [])))))
   = [projr (incident_document ''doc-1'' at_noon demo_incident (JObj [])),
      projr (incident_document ''doc-2'' at_noon demo_incident_again (JObj []))]"
  by (simp add: store_incident_def demo_init incident_document_def demo_incident_def
        demo_incident_again_def get_def ensure_initialized_done has_id_def
        get_default_def SEVERITY_LEVELS_def py_or_def create_item_def called_def demo_env_fields)

text \<open>
  C1 claims that persisting the same \<^verbatim>\<open>incidentId\<close> twice leaves exactly one stored
  document, reflecting the second payload. \<^verbatim>\<open>store_incident\<close> gives every document a
  fresh \<^verbatim>\<open>uuid4\<close> identifier and calls \<^verbatim>\<open>create_item\<close>: delivering incident
  \<^verbatim>\<open>INC-1\<close> twice, with different payloads, leaves two documents under that key,
  the first still holding the first payload.
\<close>

theorem store_twice_counterexample:
  "ids_and_payloads
     (stored_under (JStr ''INC-1'')
        (snd (store_incident demo_env ''doc-2'' at_noon demo_incident_again (JObj [])
           (snd (store_incident demo_env ''doc-1'' at_noon demo_incident (JObj []) (new_processor []))))))
   = [(JStr ''doc-1'', JObj demo_incident), (JStr ''doc-2'', JObj demo_incident_again)]"
  unfolding stored_under_def demo_stored_twice ids_and_payloads_def
  by (simp add: incident_document_def demo_incident_def demo_incident_again_def get_def
        get_default_def SEVERITY_LEVELS_def py_or_def)

text \<open>
  C1, as the code has it: \<^verbatim>\<open>store_incident\<close> always creates. Two successful calls
  for the same business key append two documents with distinct store identifiers, each
  retaining its own payload; nothing stored before is overwritten, so the documents under
  that key grow by two.
\<close>

theorem store_incident_appends:
  assumes first: "store_incident E u1 c1 p1 a1 s = (Inr r1, s1)"
      and second: "store_incident E u2 c2 p2 a2 s1 = (Inr r2, s2)"
      and key1: "py_or (get p1 ''incidentId'') (get p1 ''id'') = k"
      and key2: "py_or (get p2 ''incidentId'') (get p2 ''id'') = k"
  shows "\<exists>d1 d2. docs s2 = docs s @ [d1, d2] \<and> u1 \<noteq> u2 \<and>
           get d1 ''id'' = JStr u1 \<and> get d2 ''id'' = JStr u2 \<and>
           get d1 ''raw_data'' = JObj p1 \<and> get d2 ''raw_data'' = JObj p2 \<and>
           stored_under k s2 = stored_under k s @ [d1, d2]"
proof -
  obtain d1 where d1: "incident_document u1 c1 p1 a1 = Inr d1" and s1: "docs s1 = docs s @ [d1]"
    using store_incident_Inr [OF first] by blast
  obtain d2 where d2: "incident_document u2 c2 p2 a2 = Inr d2" and s2: "docs s2 = docs s1 @ [d2]"
    and fresh: "\<not> (\<exists>x \<in> set (docs s1). has_id (get d2 ''id'') x)"
    using store_incident_Inr [OF second] by blast
  note f1 = incident_document_fields [OF d1] and f2 = incident_document_fields [OF d2]
  have ids: "get d1 ''id'' = JStr u1" "get d2 ''id'' = JStr u2"
    using f1(1) f2(1) by (simp_all add: get_def)
  have "\<not> has_id (get d2 ''id'') d1"
    using fresh s1 by simp
  then have "u1 \<noteq> u2"
    using ids f1(1) by (auto simp: has_id_def)
  moreover have "get d1 ''raw_data'' = JObj p1" "get d2 ''raw_data'' = JObj p2"
    using f1(6) f2(6) by (simp_all add: get_def)
  moreover have "get d1 ''incident_id'' = k" "get d2 ''incident_id'' = k"
    using f1(3) f2(3) key1 key2 by (simp_all add: get_def)
  then have "stored_under k s2 = stored_under k s @ [d1, d2]"
    using s1 s2 by (simp add: stored_under_def)
  ultimately show ?thesis
    using ids s1 s2 by auto
qed

text \<open>Both deliveries of \<^verbatim>\<open>INC-1\<close> succeed in the concrete deployment.\<close>

theorem store_incident_appends_witness:
  "\<exists>d1 d2.
     docs (snd (store_incident demo_env ''doc-2'' at_noon demo_incident_again (JObj [])
        (snd (store_incident demo_env ''doc-1'' at_noon demo_incident (JObj []) (new_processor [])))))
       = [d1, d2] \<and>
     get d1 ''id'' = JStr ''doc-1'' \<and> get d2 ''id'' = JStr ''doc-2'' \<and>
     get d1 ''raw_data'' = JObj demo_incident \<and> get d2 ''raw_data'' = JObj demo_incident_again"
proof -
  let ?s1 = "snd (store_incident demo_env ''doc-1'' at_noon demo_incident (JObj []) (new_processor []))"
  let ?s2 = "snd (store_incident demo_env ''doc-2'' at_noon demo_incident_again (JObj []) ?s1)"
  obtain r1 where first:
    "store_incident demo_env ''doc-1'' at_noon demo_incident (JObj []) (new_processor []) = (Inr r1, ?s1)"
    using demo_store by blast
  obtain r2 where second:
    "store_incident demo_env ''doc-2'' at_noon demo_incident_again (JObj []) ?s1 = (Inr r2, ?s2)"
    using demo_store_again by (metis prod.collapse)
  have key1: "py_or (get demo_incident ''incidentId'') (get demo_incident ''id'') = JStr ''INC-1''"
    by (simp add: demo_incident_def get_def py_or_def)
  have key2: "py_or (get demo_incident_again ''incidentId'') (get demo_incident_again ''id'') = JStr ''INC-1''"
    by (simp add: demo_incident_again_def get_def py_or_def)
  show ?thesis
    using store_incident_appends [OF first second key1 key2]
    by (auto simp: new_processor_def)
qed

subsection \<open>The action plan generator\<close>

lemma default_analysis_fields:
  "\<exists>a. default_analysis severity e = JObj a \<and> other_fields_ok a \<and>
       map_of a ''risk_level'' = Some severity \<and>
       map_of a ''analysis_summary'' = Some (JStr (''Error during analysis: '' @ str_error e))"
  by (simp add: default_analysis_def other_fields_ok_def field_is_def is_string_list_def
        is_string_def is_nonneg_number_def)

lemma analyze_incident_prepared:
  assumes "ensure_initialized E s = (Inr u, s1)" and "openai_client s1"
    and "user_message E d = Inr message"
  shows "fst (analyze_incident E chat d s) =
           (case chat of
              Inl e \<Rightarrow> Inr (default_analysis (get_default d ''severity'' (JStr ''Unknown'')) e)
            | Inr content \<Rightarrow>
                (case loads E content of
                   Inl e \<Rightarrow> Inr (default_analysis (get_default d ''severity'' (JStr ''Unknown'')) e)
                 | Inr analysis \<Rightarrow> Inr analysis))"
  using assms by (simp add: analyze_incident_def Let_def split: sum.splits)

lemma demo_user_message:
  "user_message demo_env demo_incident =
     Inr [''X'', ''Critical'', [], ''None identified'', ''0'', ''No entities'']"
  by (simp add: user_message_def demo_incident_def get_default_def py_str_def Let_def str_nat_0)

lemma demo_analyze_parsed:
  "fst (analyze_incident demo_env (Inr ''{}'') demo_incident (new_processor [])) = Inr (JObj [])"
  by (simp add: analyze_incident_def demo_init demo_user_message Let_def demo_env_fields demo_loads_def)

lemma demo_analyze_fallback:
  "fst (analyze_incident demo_env (Inl (ServiceError ''timed out'')) [(''title'', JStr ''X'')] (new_processor []))
     = Inr (default_analysis (JStr ''Unknown'') (ServiceError ''timed out''))"
  by (simp add: analyze_incident_def demo_init user_message_def get_default_def py_str_def Let_def
        str_nat_0)

lemma demo_analyze_raises:
  "fst (analyze_incident demo_env (Inl (ServiceError ''timed out''))
            [(''title'', JStr ''X''), (''relatedEntities'', JNull)] (new_processor []))
     = Inl (TypeError (''object of type '' @ squote ''NoneType'' @ '' has no len()''))"
  by (simp add: analyze_incident_def demo_init user_message_def get_default_def py_str_def Let_def)

text \<open>
  C2 claims that \<^verbatim>\<open>analyze_incident\<close> returns, for every incident, a plan with the
  eight fields, each of its type, the risk level one of Critical, High, Medium and Low,
  and never fails its caller. Three runs in the concrete deployment say otherwise: when
  the model call times out on an incident without a severity, the fallback's risk level
  is \<^verbatim>\<open>Unknown\<close>; when the model answers \<^verbatim>\<open>{}\<close>, that empty object is returned as
  the plan; and an incident whose \<^verbatim>\<open>relatedEntities\<close> is null makes the call raise,
  since the prompt is built outside the \<^verbatim>\<open>try\<close>.
\<close>

theorem analyze_incident_counterexample:
  "fst (analyze_incident demo_env (Inl (ServiceError ''timed out'')) [(''title'', JStr ''X'')] (new_processor []))
     = Inr (default_analysis (JStr ''Unknown'') (ServiceError ''timed out''))
   \<and> \<not> action_plan_ok (default_analysis (JStr ''Unknown'') (ServiceError ''timed out''))
   \<and> fst (analyze_incident demo_env (Inr ''{}'') demo_incident (new_processor [])) = Inr (JObj [])
   \<and> \<not> action_plan_ok (JObj [])
   \<and> fst (analyze_incident demo_env (Inl (ServiceError ''timed out''))
            [(''title'', JStr ''X''), (''relatedEntities'', JNull)] (new_processor []))
     = Inl (TypeError (''object of type '' @ squote ''NoneType'' @ '' has no len()''))"
  unfolding demo_analyze_parsed demo_analyze_fallback demo_analyze_raises
  by (simp add: action_plan_ok_def default_analysis_def field_is_def is_risk_level_def risk_levels_def)

text \<open>
  C2, as the code has it. Once the clients are initialised and the prompt is built: if the
  model call or \<^verbatim>\<open>json.loads\<close> raises \<open>e\<close>, the result is the fallback plan,
  which has all eight fields, the seven besides the risk level of their types, the risk
  level equal to the incident's severity (\<^verbatim>\<open>Unknown\<close> when absent) and the summary
  \<^verbatim>\<open>Error during analysis: e\<close>; if the reply parses, the parsed value is returned as
  it is, unvalidated.
\<close>

theorem analyze_incident_fallback:
  assumes "ensure_initialized E s = (Inr u, s1)" and "openai_client s1"
    and "user_message E d = Inr message"
  shows "(\<forall>e. chat = Inl e \<or> (\<exists>content. chat = Inr content \<and> loads E content = Inl e) \<longrightarrow>
            (\<exists>a. fst (analyze_incident E chat d s) = Inr (JObj a) \<and> other_fields_ok a \<and>
                 map_of a ''risk_level'' = Some (get_default d ''severity'' (JStr ''Unknown'')) \<and>
                 map_of a ''analysis_summary'' =
                   Some (JStr (''Error during analysis: '' @ str_error e))))
       \<and> (\<forall>content analysis. chat = Inr content \<and> loads E content = Inr analysis \<longrightarrow>
            fst (analyze_incident E chat d s) = Inr analysis)"
proof (intro conjI allI impI)
  fix e
  assume "chat = Inl e \<or> (\<exists>content. chat = Inr content \<and> loads E content = Inl e)"
  then have "fst (analyze_incident E chat d s) =
               Inr (default_analysis (get_default d ''severity'' (JStr ''Unknown'')) e)"
    using analyze_incident_prepared [OF assms, of chat] by auto
  then show "\<exists>a. fst (analyze_incident E chat d s) = Inr (JObj a) \<and> other_fields_ok a \<and>
                 map_of a ''risk_level'' = Some (get_default d ''severity'' (JStr ''Unknown'')) \<and>
                 map_of a ''analysis_summary'' =
                   Some (JStr (''Error during analysis: '' @ str_error e))"
    using default_analysis_fields [of "get_default d ''severity'' (JStr ''Unknown'')" e] by auto
next
  fix content analysis
  assume "chat = Inr content \<and> loads E content = Inr analysis"
  then show "fst (analyze_incident E chat d s) = Inr analysis"
    using analyze_incident_prepared [OF assms, of chat] by auto
qed

text \<open>
  Both cases in the concrete deployment: a timed-out call on the Critical scenario
  incident gives a well-formed plan, and the reply \<^verbatim>\<open>{}\<close> is returned as it is.
\<close>

theorem analyze_incident_fallback_witness:
  "(case fst (analyze_incident demo_env (Inl (ServiceError ''timed out'')) demo_incident (new_processor [])) of
      Inr plan \<Rightarrow> action_plan_ok plan
    | Inl e \<Rightarrow> False)
   \<and> fst (analyze_incident demo_env (Inr ''{}'') demo_incident (new_processor [])) = Inr (JObj [])"
proof -
  have sev: "get_default demo_incident ''severity'' (JStr ''Unknown'') = JStr ''Critical''"
    by (simp add: demo_incident_def get_default_def)
  have parsed: "loads demo_env ''{}'' = Inr (JObj [])"
    by (simp add: demo_env_fields demo_loads_def)
  have ready: "openai_client \<lparr>initialized = True, container = True, openai_client = True,
                                docs = [], trace = []\<rparr>"
    by simp
  note fallback = analyze_incident_fallback [OF demo_init ready demo_user_message]
  have "\<exists>a. fst (analyze_incident demo_env (Inl (ServiceError ''timed out'')) demo_incident (new_processor []))
              = Inr (JObj a) \<and> other_fields_ok a \<and> map_of a ''risk_level'' = Some (JStr ''Critical'')"
    using fallback [of "Inl (ServiceError ''timed out'')"] sev by auto
  then have "case fst (analyze_incident demo_env (Inl (ServiceError ''timed out'')) demo_incident
                         (new_processor [])) of
               Inr plan \<Rightarrow> action_plan_ok plan
             | Inl e \<Rightarrow> False"
    by (auto simp: action_plan_ok_def field_is_def is_risk_level_def risk_levels_def)
  moreover have "fst (analyze_incident demo_env (Inr ''{}'') demo_incident (new_processor [])) = Inr (JObj [])"
    using fallback [of "Inr ''{}''"] parsed by auto
  ultimately show ?thesis
    by blast
qed

subsection \<open>The query translator\<close>

lemma ensure_initialized_Inr:
  "ensure_initialized E s = (Inr u, s1) \<Longrightarrow> initialized s1"
  by (auto simp: ensure_initialized_def split: if_splits sum.splits)

lemma re_sub_fence_absent:
  assumes "fence \<noteq> []" and "hd fence \<notin> set s"
  shows "re_sub_fence fence s = s"
  using assms(2)
proof (induction s)
  case Nil
  show ?case by (simp add: re_sub_fence.simps)
next
  case (Cons c cs)
  have "\<not> prefix fence (c # cs)"
  proof
    assume "prefix fence (c # cs)"
    then have "hd fence = c"
      using assms(1) by (cases fence) auto
    then show False
      using Cons.prems by simp
  qed
  then show ?case
    using Cons by (simp add: re_sub_fence.simps)
qed

lemma clean_sql_plain:
  assumes "CHR 0x60 \<notin> set content" and "strip content = content"
  shows "clean_sql content = content"
proof -
  have "hd backticks = CHR 0x60" and "hd (backticks @ ''sql'') = CHR 0x60"
    and "backticks \<noteq> []" and "backticks @ ''sql'' \<noteq> []"
    by (simp_all add: backticks_def numeral_3_eq_3)
  then show ?thesis
    using assms by (simp add: clean_sql_def re_sub_fence_absent)
qed

lemma generate_incident_sql_ready:
  assumes "ensure_initialized E s = (Inr u, s1)" and "openai_client s1"
  shows "generate_incident_sql E (Inr content) q s =
           (Inr (clean_sql content), called (ChatCompletion [q]) s1)"
  using assms by (simp add: generate_incident_sql_def Let_def)

lemma query_incidents_ready:
  assumes "ensure_initialized E s = (Inr u, s1)" and "openai_client s1" and "container s1"
  shows "query_incidents E (Inr content) q s =
           query_items E (clean_sql content) (called (ChatCompletion [q]) s1)"
proof -
  have again: "ensure_initialized E s1 = (Inr (), s1)"
    using ensure_initialized_Inr [OF assms(1)] by (rule ensure_initialized_done)
  show ?thesis
    using assms(1,3) generate_incident_sql_ready [OF again assms(2)]
    by (simp add: query_incidents_def called_def)
qed

lemma strip_plain: "strip ''SELECT * FROM c'' = ''SELECT * FROM c''"
  by (simp add: strip_def is_space_def)

text \<open>
  C3 claims that every query text the translator produces holds the record-type filter
  and that one without it is rejected before it is executed. The filter is only asked of
  the model in the prompt: when the model answers \<^verbatim>\<open>SELECT * FROM c\<close>, that text is
  what \<^verbatim>\<open>generate_incident_sql\<close> returns, and \<^verbatim>\<open>query_incidents\<close> sends it to
  the container and returns the container's answer.
\<close>

theorem query_incidents_counterexample:
  "fst (generate_incident_sql demo_env (Inr ''SELECT * FROM c'') ''show critical incidents'' (new_processor []))
     = Inr ''SELECT * FROM c''
   \<and> \<not> has_type_filter ''SELECT * FROM c''
   \<and> trace (snd (query_incidents demo_env (Inr ''SELECT * FROM c'') ''show critical incidents''
                   (new_processor [])))
     = [ChatCompletion [''show critical incidents''], QueryItems ''SELECT * FROM c'']
   \<and> fst (query_incidents demo_env (Inr ''SELECT * FROM c'') ''show critical incidents'' (new_processor []))
     = Inr []"
proof -
  have clean: "clean_sql ''SELECT * FROM c'' = ''SELECT * FROM c''"
    by (rule clean_sql_plain) (simp_all add: strip_plain)
  have "\<not> has_type_filter ''SELECT * FROM c''"
    by (simp add: has_type_filter_def type_filter_def squote_def)
  moreover have "query_incidents demo_env (Inr ''SELECT * FROM c'') ''show critical incidents'' (new_processor [])
      = (Inr [], \<lparr>initialized = True, container = True, openai_client = True, docs = [],
                  trace = [ChatCompletion [''show critical incidents''], QueryItems ''SELECT * FROM c'']\<rparr>)"
    by (simp add: query_incidents_ready [OF demo_init] clean query_items_def called_def
          demo_env_fields top_by_severity_def)
  moreover have "fst (generate_incident_sql demo_env (Inr ''SELECT * FROM c'') ''show critical incidents''
                        (new_processor [])) = Inr ''SELECT * FROM c''"
    by (simp add: generate_incident_sql_ready [OF demo_init] clean)
  ultimately show ?thesis
    by simp
qed

text \<open>
  C3, as the code has it. Once the clients are initialised, \<^verbatim>\<open>generate_incident_sql\<close>
  returns the model's reply with outer whitespace and code-fence markers removed, whatever
  it holds, and \<^verbatim>\<open>query_incidents\<close> makes exactly two outside calls: the chat
  completion for the question, then the container query with that text, whose answer it
  returns. A reply with no backquote and no outer whitespace is executed verbatim, with or
  without the filter.
\<close>

theorem query_incidents_unchecked:
  assumes "ensure_initialized E s = (Inr u, s1)" and "openai_client s1" and "container s1"
  shows "fst (generate_incident_sql E (Inr content) q s) = Inr (clean_sql content)
       \<and> trace (snd (query_incidents E (Inr content) q s))
           = trace s @ [ChatCompletion [q], QueryItems (clean_sql content)]
       \<and> (cosmos_fault E = None \<longrightarrow>
            fst (query_incidents E (Inr content) q s) = run_sql E (clean_sql content) (docs s))
       \<and> (CHR 0x60 \<notin> set content \<and> strip content = content \<longrightarrow> clean_sql content = content)"
proof -
  have "trace s1 = trace s" and "docs s1 = docs s"
    using assms(1) ensure_initialized_trace ensure_initialized_docs by blast+
  then show ?thesis
    using generate_incident_sql_ready [OF assms(1,2)] query_incidents_ready [OF assms]
      clean_sql_plain [of content]
    by (auto simp: query_items_def called_def Let_def split: option.splits)
qed

text \<open>A reply without the filter, run in the concrete deployment.\<close>

theorem query_incidents_unchecked_witness:
  "fst (generate_incident_sql demo_env (Inr ''SELECT * FROM c'') ''show critical incidents'' (new_processor []))
     = Inr ''SELECT * FROM c''
   \<and> trace (snd (query_incidents demo_env (Inr ''SELECT * FROM c'') ''show critical incidents''
                   (new_processor [])))
     = [ChatCompletion [''show critical incidents''], QueryItems ''SELECT * FROM c'']
   \<and> fst (query_incidents demo_env (Inr ''SELECT * FROM c'') ''show critical incidents'' (new_processor []))
     = Inr []"
proof -
  have clean: "clean_sql ''SELECT * FROM c'' = ''SELECT * FROM c''"
    using query_incidents_unchecked [OF demo_init, of "[]" "''SELECT * FROM c''"] strip_plain
    by simp
  show ?thesis
    using query_incidents_unchecked [OF demo_init, of "[]" "''SELECT * FROM c''" "''show critical incidents''"]
    by (simp add: clean new_processor_def demo_env_fields top_by_severity_def)
qed

subsection \<open>An empty or missing query\<close>

lemma mcp_query_rejected:
  assumes "loads E req = Inr (JObj d)"
    and "map_of d ''arguments'' = None \<or>
         (\<exists>a. map_of d ''arguments'' = Some (JObj a) \<and>
              (map_of a ''query'' = None \<or>
               (\<exists>q. map_of a ''query'' = Some (JStr q) \<and> strip q = [])))"
  shows "mcp_query_incidents E chat now req s =
           ([(''error'', JStr ''Query parameter is required''), (''success'', JBool False)], s)"
  using assms
  by (auto simp: mcp_query_incidents_def mcp_query_incidents_try_def get_default_def strip_def)

lemma http_query_default:
  assumes "map_of params ''query'' = None"
    and "ensure_initialized E s = (Inr u, s1)" and "openai_client s1" and "container s1"
    and "cosmos_fault E = None" and "run_sql E (clean_sql content) (docs s) = Inr items"
  shows "http_query_incidents E params (Inr content) now s =
           (\<lparr>status_code = 200,
             body = JObj [(''success'', JBool True), (''query'', JStr default_query),
                          (''incidents'', JList items), (''count'', JInt (int (length items))),
                          (''timestamp'', JStr now)]\<rparr>,
            s1\<lparr>trace := trace s @ [ChatCompletion [default_query], QueryItems (clean_sql content)]\<rparr>)"
proof -
  have "trace s1 = trace s" and "docs s1 = docs s"
    using assms(2) ensure_initialized_trace ensure_initialized_docs by blast+
  then show ?thesis
    using assms query_incidents_ready [OF assms(2,3,4), of content default_query]
    by (simp add: http_query_incidents_def query_items_def called_def Let_def)
qed

lemma clean_plain: "clean_sql ''SELECT * FROM c'' = ''SELECT * FROM c''"
  by (rule clean_sql_plain) (simp_all add: strip_plain)

text \<open>
  C4 claims that both query surfaces reject a missing or empty query with the error
  \<^verbatim>\<open>Query parameter is required\<close>, never answering with a default query. The HTTP
  endpoint reads the parameter with a default: a request without \<^verbatim>\<open>query\<close> is
  translated from the built-in default text, executed, and answered with status 200.
\<close>

theorem query_required_counterexample:
  "fst (http_query_incidents demo_env [] (Inr ''SELECT * FROM c'') ''2025-01-01T12:00:00'' (new_processor []))
     = \<lparr>status_code = 200,
         body = JObj [(''success'', JBool True), (''query'', JStr default_query),
                      (''incidents'', JList []), (''count'', JInt 0),
                      (''timestamp'', JStr ''2025-01-01T12:00:00'')]\<rparr>
   \<and> trace (snd (http_query_incidents demo_env [] (Inr ''SELECT * FROM c'') ''2025-01-01T12:00:00''
                   (new_processor [])))
     = [ChatCompletion [default_query], QueryItems ''SELECT * FROM c'']"
  by (simp add: http_query_incidents_def query_incidents_ready [OF demo_init] clean_plain
        query_items_def called_def demo_env_fields top_by_severity_def)

text \<open>
  C4, as the code has it. The MCP tool rejects a request whose arguments or query are
  missing, or whose query is empty or only whitespace, with
  \<^verbatim>\<open>{"error": "Query parameter is required", "success": false}\<close>, and makes no
  outside call: the state is unchanged, so neither the translator nor the container is
  reached. The HTTP endpoint replaces a missing \<^verbatim>\<open>query\<close> parameter by its built-in
  default text, which is translated and executed like any other question.
\<close>

theorem query_required:
  "(\<forall>d. loads E req = Inr (JObj d) \<and>
         (map_of d ''arguments'' = None \<or>
          (\<exists>a. map_of d ''arguments'' = Some (JObj a) \<and>
               (map_of a ''query'' = None \<or>
                (\<exists>q. map_of a ''query'' = Some (JStr q) \<and> strip q = [])))) \<longrightarrow>
      mcp_query_incidents E chat now req s =
        ([(''error'', JStr ''Query parameter is required''), (''success'', JBool False)], s))
   \<and> (\<forall>u s1 items.
         map_of params ''query'' = None \<and>
         ensure_initialized E s = (Inr u, s1) \<and> openai_client s1 \<and> container s1 \<and>
         cosmos_fault E = None \<and> run_sql E (clean_sql content) (docs s) = Inr items \<longrightarrow>
      http_query_incidents E params (Inr content) now s =
        (\<lparr>status_code = 200,
          body = JObj [(''success'', JBool True), (''query'', JStr default_query),
                       (''incidents'', JList items), (''count'', JInt (int (length items))),
                       (''timestamp'', JStr now)]\<rparr>,
         s1\<lparr>trace := trace s @ [ChatCompletion [default_query], QueryItems (clean_sql content)]\<rparr>))"
  using mcp_query_rejected [of E req _ chat now s] http_query_default [of params E s _ _ content _ now]
  by blast

text \<open>A blank query on the MCP tool, and no query on the HTTP endpoint.\<close>

theorem query_required_witness:
  "mcp_query_incidents demo_env (Inr ''SELECT * FROM c'') ''2025-01-01T12:00:00''
     ''{\"arguments\": {\"query\": \" \"}}'' (new_processor [])
     = ([(''error'', JStr ''Query parameter is required''), (''success'', JBool False)], new_processor [])
   \<and> fst (http_query_incidents demo_env [] (Inr ''SELECT * FROM c'') ''2025-01-01T12:00:00'' (new_processor []))
     = \<lparr>status_code = 200,
         body = JObj [(''success'', JBool True), (''query'', JStr default_query),
                      (''incidents'', JList []), (''count'', JInt 0),
                      (''timestamp'', JStr ''2025-01-01T12:00:00'')]\<rparr>"
proof -
  have parsed: "loads demo_env ''{\"arguments\": {\"query\": \" \"}}'' =
                  Inr (JObj [(''arguments'', JObj [(''query'', JStr '' '')])])"
    by (simp add: demo_env_fields demo_loads_def)
  have blank: "strip '' '' = []"
    by (simp add: strip_def is_space_def)
  note inst = query_required [where E = demo_env and s = "new_processor []" and content = "''SELECT * FROM c''"
      and params = "[]" and now = "''2025-01-01T12:00:00''" and chat = "Inr ''SELECT * FROM c''"
      and req = "''{\"arguments\": {\"query\": \" \"}}''"]
  have "mcp_query_incidents demo_env (Inr ''SELECT * FROM c'') ''2025-01-01T12:00:00''
     ''{\"arguments\": {\"query\": \" \"}}'' (new_processor [])
     = ([(''error'', JStr ''Query parameter is required''), (''success'', JBool False)], new_processor [])"
    using inst parsed blank by simp
  moreover have "fst (http_query_incidents demo_env [] (Inr ''SELECT * FROM c'') ''2025-01-01T12:00:00'' (new_processor []))
     = \<lparr>status_code = 200,
         body = JObj [(''success'', JBool True), (''query'', JStr default_query),
                      (''incidents'', JList []), (''count'', JInt 0),
                      (''timestamp'', JStr ''2025-01-01T12:00:00'')]\<rparr>"
    using inst demo_init [of "[]"]
    by (simp add: demo_env_fields top_by_severity_def new_processor_def)
  ultimately show ?thesis
    by simp
qed

subsection \<open>Updating the action plan status\<close>

lemma update_missing_field:
  assumes "\<not> truthy (get req_body ''document_id'') \<or> \<not> truthy (get req_body ''action_status'')"
  shows "http_update_incident_actions E (Inr (JObj req_body)) updated now s =
           (\<lparr>status_code = 400,
             body = JObj [(''error'', JStr ''Missing required fields: document_id, action_status'')]\<rparr>,
            s)"
  using assms
  by (auto simp: http_update_incident_actions_def http_update_incident_actions_try_def Let_def)

lemma update_not_found:
  assumes "truthy (get req_body ''document_id'')" and "truthy (get req_body ''action_status'')"
    and "ensure_initialized E s = (Inr u, s1)" and "container s1" and "cosmos_fault E = None"
    and "find (has_id (get req_body ''document_id'')) (docs s) = None"
  shows "http_update_incident_actions E (Inr (JObj req_body)) updated now s =
           (\<lparr>status_code = 500,
             body = JObj [(''success'', JBool False), (''error'', JStr (not_found_text E)),
                          (''timestamp'', JStr now)]\<rparr>,
            s1\<lparr>trace := trace s @ [ReadItem (get req_body ''document_id'')]\<rparr>)"
proof -
  have "trace s1 = trace s" and "docs s1 = docs s"
    using assms(3) ensure_initialized_trace ensure_initialized_docs by blast+
  then show ?thesis
    using assms
    by (simp add: http_update_incident_actions_def http_update_incident_actions_try_def Let_def
          read_item_def called_def failure_def)
qed

lemma outage_fault: "cosmos_fault outage_env = Some ''Service Unavailable''"
  by (simp add: outage_env_def)

lemma outage_init:
  "ensure_initialized outage_env (new_processor ds) =
     (Inr (), \<lparr>initialized = True, container = True, openai_client = True, docs = ds, trace = []\<rparr>)"
  by (simp add: ensure_initialized_def setup_cosmos_client_def setup_openai_client_def
        outage_env_def demo_env_fields new_processor_def)

text \<open>
  C5 claims that a request missing \<^verbatim>\<open>document_id\<close> or \<^verbatim>\<open>action_status\<close> gets
  a validation error, and that an update of a document that does not exist is reported as
  NotFound, distinctly from generic failures. The handler has one
  \<^verbatim>\<open>except Exception\<close>. The not-found error of \<^verbatim>\<open>read_item\<close> is answered with
  status 500 and the failure envelope, exactly as an unreachable database is; only the
  error text differs. And a body that is a JSON list, which has neither field, or a body
  that is no JSON, is answered with that same status 500, not 400: reading the fields
  raises inside the \<^verbatim>\<open>try\<close>.
\<close>

theorem update_action_status_counterexample:
  "fst (http_update_incident_actions demo_env (Inr update_request)
          ''2025-01-01T12:00:00'' ''2025-01-01T12:00:01'' (new_processor []))
     = \<lparr>status_code = 500,
         body = JObj [(''success'', JBool False),
                      (''error'', JStr ''(NotFound) Entity with the specified id does not exist in the system.''),
                      (''timestamp'', JStr ''2025-01-01T12:00:01'')]\<rparr>
   \<and> fst (http_update_incident_actions outage_env (Inr update_request)
          ''2025-01-01T12:00:00'' ''2025-01-01T12:00:01'' (new_processor []))
     = \<lparr>status_code = 500,
         body = JObj [(''success'', JBool False),
                      (''error'', JStr ''Service Unavailable''),
                      (''timestamp'', JStr ''2025-01-01T12:00:01'')]\<rparr>
   \<and> http_update_incident_actions demo_env (Inr (JList []))
          ''2025-01-01T12:00:00'' ''2025-01-01T12:00:01'' (new_processor [])
     = (\<lparr>status_code = 500,
         body = JObj [(''success'', JBool False),
                      (''error'', JStr (squote ''list'' @ '' object has no attribute '' @ squote ''get'')),
                      (''timestamp'', JStr ''2025-01-01T12:00:01'')]\<rparr>,
        new_processor [])
   \<and> http_update_incident_actions demo_env (Inl (ValueError ''HTTP request does not contain valid JSON data''))
          ''2025-01-01T12:00:00'' ''2025-01-01T12:00:01'' (new_processor [])
     = (\<lparr>status_code = 500,
         body = JObj [(''success'', JBool False),
                      (''error'', JStr ''HTTP request does not contain valid JSON data''),
                      (''timestamp'', JStr ''2025-01-01T12:00:01'')]\<rparr>,
        new_processor [])"
  by (simp add: http_update_incident_actions_def http_update_incident_actions_try_def Let_def
        update_request_def get_def demo_init outage_init read_item_def called_def failure_def
        demo_env_fields outage_fault no_attribute_def)

text \<open>
  C5, as the code has it. A request whose body is a JSON object in which
  \<^verbatim>\<open>document_id\<close> or \<^verbatim>\<open>action_status\<close> is missing or empty is answered with
  status 400 and \<^verbatim>\<open>Missing required fields: document_id, action_status\<close> before
  anything is initialised or any store call is made: the state is unchanged. A request
  for a document that is not in the container reaches \<^verbatim>\<open>read_item\<close>, which raises,
  and is answered as every exception of the handler is: status 500 with
  \<^verbatim>\<open>success: false\<close>, the exception's text and a timestamp.
\<close>

theorem update_action_status_errors:
  "(\<not> truthy (get req_body ''document_id'') \<or> \<not> truthy (get req_body ''action_status'') \<longrightarrow>
      http_update_incident_actions E (Inr (JObj req_body)) updated now s =
        (\<lparr>status_code = 400,
          body = JObj [(''error'', JStr ''Missing required fields: document_id, action_status'')]\<rparr>,
         s))
   \<and> (\<forall>u s1.
        truthy (get req_body ''document_id'') \<and> truthy (get req_body ''action_status'') \<and>
        ensure_initialized E s = (Inr u, s1) \<and> container s1 \<and> cosmos_fault E = None \<and>
        find (has_id (get req_body ''document_id'')) (docs s) = None \<longrightarrow>
      http_update_incident_actions E (Inr (JObj req_body)) updated now s =
        (\<lparr>status_code = 500,
          body = JObj [(''success'', JBool False), (''error'', JStr (not_found_text E)),
                       (''timestamp'', JStr now)]\<rparr>,
         s1\<lparr>trace := trace s @ [ReadItem (get req_body ''document_id'')]\<rparr>))
   \<and> (\<forall>e s1. http_update_incident_actions_try E request_json updated now s = (Inl e, s1) \<longrightarrow>
        fst (http_update_incident_actions E request_json updated now s) =
          \<lparr>status_code = 500,
            body = JObj [(''success'', JBool False), (''error'', JStr (str_error e)),
                         (''timestamp'', JStr now)]\<rparr>)"
  using update_missing_field [of req_body E updated now s]
    update_not_found [of req_body E s _ _ updated now]
  by (auto simp: http_update_incident_actions_def failure_def)

text \<open>A request without \<^verbatim>\<open>action_status\<close>, and one for a document that does not exist.\<close>

theorem update_action_status_errors_witness:
  "http_update_incident_actions demo_env (Inr (JObj [(''document_id'', JStr ''doc-1'')]))
     ''2025-01-01T12:00:00'' ''2025-01-01T12:00:01'' (new_processor [])
     = (\<lparr>status_code = 400,
         body = JObj [(''error'', JStr ''Missing required fields: document_id, action_status'')]\<rparr>,
        new_processor [])
   \<and> fst (http_update_incident_actions demo_env (Inr update_request)
            ''2025-01-01T12:00:00'' ''2025-01-01T12:00:01'' (new_processor []))
     = \<lparr>status_code = 500,
         body = JObj [(''success'', JBool False),
                      (''error'', JStr ''(NotFound) Entity with the specified id does not exist in the system.''),
                      (''timestamp'', JStr ''2025-01-01T12:00:01'')]\<rparr>"
proof -
  have "http_update_incident_actions demo_env (Inr (JObj [(''document_id'', JStr ''doc-1'')]))
     ''2025-01-01T12:00:00'' ''2025-01-01T12:00:01'' (new_processor [])
     = (\<lparr>status_code = 400,
         body = JObj [(''error'', JStr ''Missing required fields: document_id, action_status'')]\<rparr>,
        new_processor [])"
    using update_action_status_errors [where req_body = "[(''document_id'', JStr ''doc-1'')]"
        and E = demo_env and s = "new_processor []"]
    by (simp add: get_def)
  moreover have "fst (http_update_incident_actions demo_env (Inr update_request)
            ''2025-01-01T12:00:00'' ''2025-01-01T12:00:01'' (new_processor []))
     = \<lparr>status_code = 500,
         body = JObj [(''success'', JBool False),
                      (''error'', JStr ''(NotFound) Entity with the specified id does not exist in the system.''),
                      (''timestamp'', JStr ''2025-01-01T12:00:01'')]\<rparr>"
    using update_action_status_errors [where E = demo_env and s = "new_processor []"
        and req_body = "[(''document_id'', JStr ''no-such-document''), (''action_status'', JStr ''Completed'')]"
        and updated = "''2025-01-01T12:00:00''" and now = "''2025-01-01T12:00:01''"]
      demo_init [of "[]"]
    by (simp add: get_def demo_env_fields update_request_def new_processor_def)
  ultimately show ?thesis
    by simp
qed

subsection \<open>Sampling the highest severities\<close>

lemma top_by_severity_length: "length (top_by_severity k ds) \<le> nat k"
  by (simp add: top_by_severity_def)

lemma top_by_severity_ordered: "non_increasing (map level_of (top_by_severity k ds))"
proof -
  let ?xs = "sort_key (\<lambda>d. - level_of d) (filter (\<lambda>d. get d ''document_type'' = JStr ''security_incident'') ds)"
  have "sorted (map (\<lambda>d. - level_of d) ?xs)"
    by (rule sorted_sort_key)
  then have "sorted (take (nat k) (map (\<lambda>d. - level_of d) ?xs))"
    by (rule sorted_wrt_take)
  then have "sorted (map (\<lambda>d. - level_of d) (take (nat k) ?xs))"
    by (simp add: take_map)
  then have "sorted_wrt (\<lambda>a b. - level_of a \<le> - level_of b) (take (nat k) ?xs)"
    by (simp add: sorted_wrt_map)
  then show ?thesis
    by (simp add: non_increasing_def top_by_severity_def sorted_wrt_map)
qed

lemma get_sample_incidents_ready:
  assumes "ensure_initialized E s = (Inr u, s1)" and "container s1" and "cosmos_fault E = None"
  shows "get_sample_incidents E limit s =
           (run_sql E (sample_sql limit) (docs s), s1\<lparr>trace := trace s @ [QueryItems (sample_sql limit)]\<rparr>)"
proof -
  have "trace s1 = trace s" and "docs s1 = docs s"
    using assms(1) ensure_initialized_trace ensure_initialized_docs by blast+
  then show ?thesis
    using assms by (simp add: get_sample_incidents_def query_items_def called_def)
qed

text \<open>The query text the code builds is read back as the limit it was built from.\<close>

lemma is_digit_char_of: "(n :: nat) < 10 \<Longrightarrow> is_digit (char_of (48 + n))"
  by (simp add: is_digit_def)

lemma str_nat_digits: "list_all is_digit (str_nat n)"
proof (induction n rule: str_nat.induct)
  case (1 n)
  show ?case
  proof (cases "n < 10")
    case True
    then show ?thesis
      by (subst str_nat.simps) (simp add: is_digit_char_of)
  next
    case False
    then show ?thesis
      using 1 by (subst str_nat.simps) (simp add: is_digit_char_of)
  qed
qed

lemma str_nat_nonempty: "str_nat n \<noteq> []"
  by (subst str_nat.simps) simp

lemma digits_value_str_nat: "digits_value (str_nat n) = n"
proof (induction n rule: str_nat.induct)
  case (1 n)
  show ?case
  proof (cases "n < 10")
    case True
    then show ?thesis
      by (subst str_nat.simps) (simp add: digits_value_def is_digit_char_of)
  next
    case False
    then have "digits_value (str_nat (n div 10)) = n div 10"
      using 1 by simp
    moreover have "is_digit (char_of (48 + n mod 10))"
      by (simp add: is_digit_char_of)
    ultimately show ?thesis
      using False by (subst str_nat.simps) (simp add: digits_value_def)
  qed
qed

lemma top_query_sample_sql:
  assumes "0 \<le> k"
  shows "top_query (sample_sql k) = Some (nat k)"
proof -
  let ?tail = "'' * FROM c WHERE c.document_type = '' @ squote ''security_incident''
               @ '' ORDER BY c.severity_level DESC''"
  have built: "sample_sql k = ''SELECT TOP '' @ str_nat (nat k) @ ?tail"
    using assms by (simp add: sample_sql_def str_int_def)
  have digits: "\<forall>c \<in> set (str_nat (nat k)). is_digit c"
    using str_nat_digits [of "nat k"] by (simp add: list_all_iff)
  have tail: "takeWhile is_digit ?tail = []" "dropWhile is_digit ?tail = ?tail"
    by (simp_all add: is_digit_def)
  have "takeWhile is_digit (str_nat (nat k) @ ?tail) = str_nat (nat k)"
    using digits tail(1) by (simp add: takeWhile_append2)
  moreover have "dropWhile is_digit (str_nat (nat k) @ ?tail) = ?tail"
    using digits tail(2) by (simp add: dropWhile_append2)
  ultimately show ?thesis
    unfolding built top_query_def
    by (simp add: Let_def str_nat_nonempty digits_value_str_nat)
qed

lemma py_int_1000: "py_int r ''1000'' = Inr 1000"
  by (simp add: py_int_def is_int_space_def is_digit_def digits_value_def)

lemma py_int_0: "py_int r ''0'' = Inr 0"
  by (simp add: py_int_def is_int_space_def is_digit_def digits_value_def)

lemma sampling_env_fields:
  "cosmos_fault sampling_env = None"
  "run_sql sampling_env = (\<lambda>sql ds. case top_query sql of
                                       Some n \<Rightarrow> Inr (map JObj (top_by_severity (int n) ds))
                                     | None \<Rightarrow> Inr [])"
  by (simp_all add: sampling_env_def demo_env_fields)

lemma sampling_env_honours_top: "honours_top sampling_env"
  by (simp add: honours_top_def sampling_env_fields)

lemma sampling_init:
  "ensure_initialized sampling_env (new_processor ds) =
     (Inr (), \<lparr>initialized = True, container = True, openai_client = True, docs = ds, trace = []\<rparr>)"
  by (simp add: ensure_initialized_def setup_cosmos_client_def setup_openai_client_def
        sampling_env_def demo_env_fields new_processor_def)

lemma demo_top:
  "top_by_severity 100 [low_doc, other_doc, critical_doc] = [critical_doc, low_doc]"
  "top_by_severity 1 [low_doc, other_doc, critical_doc] = [critical_doc]"
  by (simp_all add: top_by_severity_def level_of_def get_def low_doc_def other_doc_def critical_doc_def)

text \<open>
  C7. Whatever integer the caller gives as \<^verbatim>\<open>limit\<close> (10 when absent), the sample
  endpoint clamps it to a \<open>k\<close> between 1 and 100 (the limit itself when it lies there,
  else the nearer bound) and issues the one query
  \<^verbatim>\<open>SELECT TOP k ... ORDER BY c.severity_level DESC\<close>. Behind an engine that reads
  such a text as it is written, the endpoint returns, with their count, the \<open>k\<close> highest
  incident documents: at most \<open>k\<close> records, their levels never increasing.
\<close>

theorem sample_clamped:
  assumes limit: "py_int (py_repr E) (case map_of params ''limit'' of None \<Rightarrow> ''10'' | Some t \<Rightarrow> t) = Inr n"
    and ready: "ensure_initialized E s = (Inr u, s1)" "container s1" "cosmos_fault E = None"
    and engine: "honours_top E"
  shows "\<exists>k items.
           http_get_sample_incidents E params now s =
             (\<lparr>status_code = 200,
               body = JObj [(''sample_incidents'', JList items),
                            (''count'', JInt (int (length items))),
                            (''success'', JBool True),
                            (''timestamp'', JStr now)]\<rparr>,
              s1\<lparr>trace := trace s @ [QueryItems (sample_sql k)]\<rparr>)
         \<and> 1 \<le> k \<and> k \<le> 100
         \<and> (1 \<le> n \<and> n \<le> 100 \<longrightarrow> k = n) \<and> (n < 1 \<longrightarrow> k = 1) \<and> (100 < n \<longrightarrow> k = 100)
         \<and> items = map JObj (top_by_severity k (docs s))
         \<and> length items \<le> nat k
         \<and> non_increasing (map level_of_json items)"
proof -
  define k where "k = min (max n 1) 100"
  define items where "items = map JObj (top_by_severity k (docs s))"
  have bounds: "1 \<le> k" "k \<le> 100"
    by (simp_all add: k_def)
  have "top_query (sample_sql k) = Some (nat k)"
    using bounds by (simp add: top_query_sample_sql)
  then have "run_sql E (sample_sql k) (docs s) = Inr (map JObj (top_by_severity (int (nat k)) (docs s)))"
    using engine by (simp add: honours_top_def)
  then have answer: "run_sql E (sample_sql k) (docs s) = Inr items"
    using bounds by (simp add: items_def)
  have "http_get_sample_incidents E params now s =
           (\<lparr>status_code = 200,
             body = JObj [(''sample_incidents'', JList items),
                          (''count'', JInt (int (length items))),
                          (''success'', JBool True),
                          (''timestamp'', JStr now)]\<rparr>,
            s1\<lparr>trace := trace s @ [QueryItems (sample_sql k)]\<rparr>)"
    using limit answer get_sample_incidents_ready [OF ready, of k]
    by (simp add: http_get_sample_incidents_def http_get_sample_incidents_try_def Let_def k_def)
  moreover have "(1 \<le> n \<and> n \<le> 100 \<longrightarrow> k = n) \<and> (n < 1 \<longrightarrow> k = 1) \<and> (100 < n \<longrightarrow> k = 100)"
    by (simp add: k_def)
  moreover have "length items \<le> nat k"
    using top_by_severity_length by (simp add: items_def)
  moreover have "map level_of_json items = map level_of (top_by_severity k (docs s))"
    by (simp add: items_def level_of_json_def comp_def)
  then have "non_increasing (map level_of_json items)"
    using top_by_severity_ordered by simp
  ultimately show ?thesis
    using bounds items_def by blast
qed

text \<open>
  Limits 1000 and 0 against a container holding a Low and a Critical incident and a
  document of another type: the queries ask for the top 100 and the top 1.
\<close>

theorem sample_clamped_witness:
  "http_get_sample_incidents sampling_env [(''limit'', ''1000'')] ''2025-01-01T12:00:00''
     (new_processor [low_doc, other_doc, critical_doc])
   = (\<lparr>status_code = 200,
       body = JObj [(''sample_incidents'', JList [JObj critical_doc, JObj low_doc]),
                    (''count'', JInt 2), (''success'', JBool True),
                    (''timestamp'', JStr ''2025-01-01T12:00:00'')]\<rparr>,
      \<lparr>initialized = True, container = True, openai_client = True,
        docs = [low_doc, other_doc, critical_doc], trace = [QueryItems (sample_sql 100)]\<rparr>)
   \<and> http_get_sample_incidents sampling_env [(''limit'', ''0'')] ''2025-01-01T12:00:00''
       (new_processor [low_doc, other_doc, critical_doc])
   = (\<lparr>status_code = 200,
       body = JObj [(''sample_incidents'', JList [JObj critical_doc]),
                    (''count'', JInt 1), (''success'', JBool True),
                    (''timestamp'', JStr ''2025-01-01T12:00:00'')]\<rparr>,
      \<lparr>initialized = True, container = True, openai_client = True,
        docs = [low_doc, other_doc, critical_doc], trace = [QueryItems (sample_sql 1)]\<rparr>)"
proof -
  let ?s = "new_processor [low_doc, other_doc, critical_doc]"
  have docs: "docs ?s = [low_doc, other_doc, critical_doc]" and trace: "trace ?s = []"
    by (simp_all add: new_processor_def)
  have big: "py_int (py_repr sampling_env)
               (case map_of [(''limit'', ''1000'')] ''limit'' of None \<Rightarrow> ''10'' | Some t \<Rightarrow> t) = Inr 1000"
    by (simp add: py_int_1000)
  have zero: "py_int (py_repr sampling_env)
               (case map_of [(''limit'', ''0'')] ''limit'' of None \<Rightarrow> ''10'' | Some t \<Rightarrow> t) = Inr 0"
    by (simp add: py_int_0)
  have ready: "container \<lparr>initialized = True, container = True, openai_client = True,
                            docs = [low_doc, other_doc, critical_doc], trace = []\<rparr>"
    by simp
  from sample_clamped [where now = "''2025-01-01T12:00:00''", OF big sampling_init ready
      sampling_env_fields(1) sampling_env_honours_top]
  have first: "http_get_sample_incidents sampling_env [(''limit'', ''1000'')] ''2025-01-01T12:00:00'' ?s
   = (\<lparr>status_code = 200,
       body = JObj [(''sample_incidents'', JList [JObj critical_doc, JObj low_doc]),
                    (''count'', JInt 2), (''success'', JBool True),
                    (''timestamp'', JStr ''2025-01-01T12:00:00'')]\<rparr>,
      \<lparr>initialized = True, container = True, openai_client = True,
        docs = [low_doc, other_doc, critical_doc], trace = [QueryItems (sample_sql 100)]\<rparr>)"
    by (auto simp: docs trace demo_top)
  from sample_clamped [where now = "''2025-01-01T12:00:00''", OF zero sampling_init ready
      sampling_env_fields(1) sampling_env_honours_top]
  have second: "http_get_sample_incidents sampling_env [(''limit'', ''0'')] ''2025-01-01T12:00:00'' ?s
   = (\<lparr>status_code = 200,
       body = JObj [(''sample_incidents'', JList [JObj critical_doc]),
                    (''count'', JInt 1), (''success'', JBool True),
                    (''timestamp'', JStr ''2025-01-01T12:00:00'')]\<rparr>,
      \<lparr>initialized = True, container = True, openai_client = True,
        docs = [low_doc, other_doc, critical_doc], trace = [QueryItems (sample_sql 1)]\<rparr>)"
    by (auto simp: docs trace demo_top)
  from first second show ?thesis
    by simp
qed

subsection \<open>Normalising the payload\<close>

lemma unwrap_incident_object:
  assumes "(map_of request_body ''properties'' = None \<and> d = request_body)
         \<or> (\<exists>p. map_of request_body ''properties'' = Some p \<and> \<not> truthy p \<and> d = request_body)
         \<or> (map_of request_body ''properties'' = Some (JObj d) \<and> d \<noteq> [])"
  shows "unwrap_incident (JObj request_body) = Inr (JObj d)"
  using assms by (auto simp: unwrap_incident_def get_def py_or_def)

text \<open>
  C8 claims that normalisation never fails on any payload. The envelope is unwrapped
  with \<^verbatim>\<open>body.get("properties") or body\<close>, and the result is read with
  \<^verbatim>\<open>.get\<close>: a payload whose \<^verbatim>\<open>properties\<close> is the number 5 makes that raise,
  and the receiver answers 400 without analysing or storing anything.
\<close>

theorem normalization_counterexample:
  "sentinel_receiver demo_env (Inr (JObj [(''properties'', JInt 5)])) (Inr ''{}'') ''doc-1'' at_noon
     ''2025-01-01T12:00:00'' (new_processor [])
   = (\<lparr>status_code = 400,
       body = JObj [(''success'', JBool False),
                    (''error'', JStr (squote ''int'' @ '' object has no attribute '' @ squote ''get'')),
                    (''timestamp'', JStr ''2025-01-01T12:00:00'')]\<rparr>,
      new_processor [])"
  by (simp add: sentinel_receiver_def sentinel_receiver_try_def unwrap_incident_def key_fields_def
        get_def py_or_def failure_def no_attribute_def)

text \<open>
  C8, as the code has it. For a payload object whose \<^verbatim>\<open>properties\<close> member is
  absent, empty or itself an object, unwrapping and reading the key fields do not fail:
  the title is \<^verbatim>\<open>title\<close> when that is present and not empty, else
  \<^verbatim>\<open>incidentName\<close>; the incident id is \<^verbatim>\<open>incidentId\<close>, else \<^verbatim>\<open>id\<close>; the
  receiver's severity is \<^verbatim>\<open>Unknown\<close> when the key is absent. The stored document
  follows the same precedence, takes the empty list for absent \<^verbatim>\<open>relatedEntities\<close>
  and \<^verbatim>\<open>relatedAlerts\<close>, and for an absent severity stores null with level 0.
\<close>

theorem normalization_defaults:
  assumes "(map_of request_body ''properties'' = None \<and> d = request_body)
         \<or> (\<exists>p. map_of request_body ''properties'' = Some p \<and> \<not> truthy p \<and> d = request_body)
         \<or> (map_of request_body ''properties'' = Some (JObj d) \<and> d \<noteq> [])"
  shows "unwrap_incident (JObj request_body) = Inr (JObj d)
       \<and> (\<exists>title severity incident_id.
            key_fields (JObj d) = Inr (d, title, severity, incident_id) \<and>
            (truthy (get d ''title'') \<longrightarrow> title = get d ''title'') \<and>
            (\<not> truthy (get d ''title'') \<longrightarrow> title = get d ''incidentName'') \<and>
            (truthy (get d ''incidentId'') \<longrightarrow> incident_id = get d ''incidentId'') \<and>
            (\<not> truthy (get d ''incidentId'') \<longrightarrow> incident_id = get d ''id'') \<and>
            (map_of d ''severity'' = None \<longrightarrow> severity = JStr ''Unknown'') \<and>
            (\<forall>v. map_of d ''severity'' = Some v \<longrightarrow> severity = v))
       \<and> (\<forall>doc. incident_document uuid utcnow d a = Inr doc \<longrightarrow>
            (truthy (get d ''title'') \<longrightarrow> map_of doc ''title'' = Some (get d ''title'')) \<and>
            (\<not> truthy (get d ''title'') \<longrightarrow> map_of doc ''title'' = Some (get d ''incidentName'')) \<and>
            (truthy (get d ''incidentId'') \<longrightarrow> map_of doc ''incident_id'' = Some (get d ''incidentId'')) \<and>
            (\<not> truthy (get d ''incidentId'') \<longrightarrow> map_of doc ''incident_id'' = Some (get d ''id'')) \<and>
            (map_of d ''relatedEntities'' = None \<longrightarrow> map_of doc ''entities'' = Some (JList [])) \<and>
            (\<forall>v. map_of d ''relatedEntities'' = Some v \<longrightarrow> map_of doc ''entities'' = Some v) \<and>
            (map_of d ''relatedAlerts'' = None \<longrightarrow> map_of doc ''alerts'' = Some (JList [])) \<and>
            (\<forall>v. map_of d ''relatedAlerts'' = Some v \<longrightarrow> map_of doc ''alerts'' = Some v) \<and>
            (map_of d ''severity'' = None \<longrightarrow>
               map_of doc ''severity'' = Some JNull \<and> map_of doc ''severity_level'' = Some (JInt 0)))"
proof (intro conjI)
  show "unwrap_incident (JObj request_body) = Inr (JObj d)"
    using assms by (rule unwrap_incident_object)
next
  show "\<exists>title severity incident_id.
            key_fields (JObj d) = Inr (d, title, severity, incident_id) \<and>
            (truthy (get d ''title'') \<longrightarrow> title = get d ''title'') \<and>
            (\<not> truthy (get d ''title'') \<longrightarrow> title = get d ''incidentName'') \<and>
            (truthy (get d ''incidentId'') \<longrightarrow> incident_id = get d ''incidentId'') \<and>
            (\<not> truthy (get d ''incidentId'') \<longrightarrow> incident_id = get d ''id'') \<and>
            (map_of d ''severity'' = None \<longrightarrow> severity = JStr ''Unknown'') \<and>
            (\<forall>v. map_of d ''severity'' = Some v \<longrightarrow> severity = v)"
    by (simp add: key_fields_def py_or_def get_default_def)
next
  show "\<forall>doc. incident_document uuid utcnow d a = Inr doc \<longrightarrow>
            (truthy (get d ''title'') \<longrightarrow> map_of doc ''title'' = Some (get d ''title'')) \<and>
            (\<not> truthy (get d ''title'') \<longrightarrow> map_of doc ''title'' = Some (get d ''incidentName'')) \<and>
            (truthy (get d ''incidentId'') \<longrightarrow> map_of doc ''incident_id'' = Some (get d ''incidentId'')) \<and>
            (\<not> truthy (get d ''incidentId'') \<longrightarrow> map_of doc ''incident_id'' = Some (get d ''id'')) \<and>
            (map_of d ''relatedEntities'' = None \<longrightarrow> map_of doc ''entities'' = Some (JList [])) \<and>
            (\<forall>v. map_of d ''relatedEntities'' = Some v \<longrightarrow> map_of doc ''entities'' = Some v) \<and>
            (map_of d ''relatedAlerts'' = None \<longrightarrow> map_of doc ''alerts'' = Some (JList [])) \<and>
            (\<forall>v. map_of d ''relatedAlerts'' = Some v \<longrightarrow> map_of doc ''alerts'' = Some v) \<and>
            (map_of d ''severity'' = None \<longrightarrow>
               map_of doc ''severity'' = Some JNull \<and> map_of doc ''severity_level'' = Some (JInt 0))"
  proof (intro allI impI)
    fix doc
    assume built: "incident_document uuid utcnow d a = Inr doc"
    note f = incident_document_fields [OF built]
    have level: "map_of doc ''severity_level'' = Some (JInt (severity_rank (map_of d ''severity'')))"
      using incident_document_level [OF built] .
    show "(truthy (get d ''title'') \<longrightarrow> map_of doc ''title'' = Some (get d ''title'')) \<and>
            (\<not> truthy (get d ''title'') \<longrightarrow> map_of doc ''title'' = Some (get d ''incidentName'')) \<and>
            (truthy (get d ''incidentId'') \<longrightarrow> map_of doc ''incident_id'' = Some (get d ''incidentId'')) \<and>
            (\<not> truthy (get d ''incidentId'') \<longrightarrow> map_of doc ''incident_id'' = Some (get d ''id'')) \<and>
            (map_of d ''relatedEntities'' = None \<longrightarrow> map_of doc ''entities'' = Some (JList [])) \<and>
            (\<forall>v. map_of d ''relatedEntities'' = Some v \<longrightarrow> map_of doc ''entities'' = Some v) \<and>
            (map_of d ''relatedAlerts'' = None \<longrightarrow> map_of doc ''alerts'' = Some (JList [])) \<and>
            (\<forall>v. map_of d ''relatedAlerts'' = Some v \<longrightarrow> map_of doc ''alerts'' = Some v) \<and>
            (map_of d ''severity'' = None \<longrightarrow>
               map_of doc ''severity'' = Some JNull \<and> map_of doc ''severity_level'' = Some (JInt 0))"
      using f(3,7,8,9,10) level
      by (simp add: py_or_def get_default_def get_def severity_rank_def)
  qed
qed

text \<open>An incident in an envelope, carrying only the aliases.\<close>

theorem normalization_defaults_witness:
  "unwrap_incident (JObj wrapped_body) = Inr (JObj [(''incidentName'', JStr ''Y''), (''id'', JStr ''42'')])
   \<and> key_fields (JObj [(''incidentName'', JStr ''Y''), (''id'', JStr ''42'')])
       = Inr ([(''incidentName'', JStr ''Y''), (''id'', JStr ''42'')], JStr ''Y'', JStr ''Unknown'', JStr ''42'')
   \<and> (case incident_document ''doc-1'' at_noon [(''incidentName'', JStr ''Y''), (''id'', JStr ''42'')] (JObj []) of
        Inr doc \<Rightarrow> map_of doc ''title'' = Some (JStr ''Y'') \<and> map_of doc ''incident_id'' = Some (JStr ''42'') \<and>
                   map_of doc ''entities'' = Some (JList []) \<and> map_of doc ''alerts'' = Some (JList []) \<and>
                   map_of doc ''severity'' = Some JNull \<and> map_of doc ''severity_level'' = Some (JInt 0)
      | Inl e \<Rightarrow> False)"
proof -
  let ?d = "[(''incidentName'', JStr ''Y''), (''id'', JStr ''42'')]"
  have wrapped: "(map_of wrapped_body ''properties'' = None \<and> ?d = wrapped_body)
         \<or> (\<exists>p. map_of wrapped_body ''properties'' = Some p \<and> \<not> truthy p \<and> ?d = wrapped_body)
         \<or> (map_of wrapped_body ''properties'' = Some (JObj ?d) \<and> ?d \<noteq> [])"
    by (simp add: wrapped_body_def)
  have present: "get ?d ''title'' = JNull" "get ?d ''incidentName'' = JStr ''Y''"
       "get ?d ''incidentId'' = JNull" "get ?d ''id'' = JStr ''42''" "map_of ?d ''severity'' = None"
       "map_of ?d ''relatedEntities'' = None" "map_of ?d ''relatedAlerts'' = None"
    by (simp_all add: get_def)
  obtain doc where built: "incident_document ''doc-1'' at_noon ?d (JObj []) = Inr doc"
    by (simp add: incident_document_def get_default_def)
  note inst = normalization_defaults [OF wrapped, where uuid = "''doc-1''" and utcnow = at_noon and a = "JObj []"]
  have "unwrap_incident (JObj wrapped_body) = Inr (JObj ?d)"
    using inst by blast
  moreover have "key_fields (JObj ?d) = Inr (?d, JStr ''Y'', JStr ''Unknown'', JStr ''42'')"
    using inst present by auto
  moreover have "map_of doc ''title'' = Some (JStr ''Y'') \<and> map_of doc ''incident_id'' = Some (JStr ''42'') \<and>
                   map_of doc ''entities'' = Some (JList []) \<and> map_of doc ''alerts'' = Some (JList []) \<and>
                   map_of doc ''severity'' = Some JNull \<and> map_of doc ''severity_level'' = Some (JInt 0)"
    using inst built present by auto
  ultimately show ?thesis
    using built by simp
qed

subsection \<open>The MCP tool always answers\<close>

lemma mcp_try_answer:
  assumes "mcp_query_incidents_try E chat now req s = (Inr answer, s1)"
  shows "map_of answer ''success'' = Some (JBool False) \<or> map_of answer ''success'' = Some (JBool True)"
  using assms
  by (auto simp: mcp_query_incidents_try_def split: sum.splits prod.splits if_splits)

lemma demo_mcp_success:
  "mcp_query_incidents demo_env (Inr ''SELECT * FROM c'') ''2025-01-01T12:00:00''
     ''{\"arguments\": {\"query\": \"show critical incidents\"}}'' (new_processor [])
   = ([(''success'', JBool True),
       (''query'', JStr ''show critical incidents''),
       (''summary'', JStr (''Query: show critical incidents'' @ nl @ ''Results: 0 incidents found'' @ nl @ nl
                           @ ''No incidents matching your query.'' @ nl)),
       (''incidents'', JList []),
       (''count'', JInt 0),
       (''timestamp'', JStr ''2025-01-01T12:00:00'')],
      \<lparr>initialized = True, container = True, openai_client = True, docs = [],
        trace = [ChatCompletion [''show critical incidents''], QueryItems ''SELECT * FROM c'']\<rparr>)"
  by (simp add: mcp_query_incidents_def mcp_query_incidents_try_def demo_env_fields demo_loads_def
        get_default_def strip_def is_space_def query_incidents_ready [OF demo_init] clean_plain
        query_items_def called_def top_by_severity_def summary_text_def str_nat_0)

text \<open>
  C10. For every request text, whatever the parser, the model and the container do, the
  MCP tool returns an object with a boolean \<^verbatim>\<open>success\<close> field; and whenever its
  \<^verbatim>\<open>try\<close> block raises an exception \<open>e\<close>, the object is
  \<^verbatim>\<open>{"error": "Error querying incidents: <e>", "success": false, "timestamp": ...}\<close>.
\<close>

theorem mcp_always_answers:
  "(\<exists>b. map_of (fst (mcp_query_incidents E chat now req s)) ''success'' = Some (JBool b))
   \<and> (\<forall>e s1. mcp_query_incidents_try E chat now req s = (Inl e, s1) \<longrightarrow>
         mcp_query_incidents E chat now req s =
           ([(''error'', JStr (''Error querying incidents: '' @ str_error e)),
             (''success'', JBool False),
             (''timestamp'', JStr now)], s1))"
proof (cases "mcp_query_incidents_try E chat now req s")
  case (Pair r s1)
  show ?thesis
  proof (cases r)
    case (Inl e)
    then show ?thesis
      using Pair by (auto simp: mcp_query_incidents_def)
  next
    case (Inr answer)
    then have "\<exists>b. map_of answer ''success'' = Some (JBool b)"
      using Pair mcp_try_answer by blast
    then show ?thesis
      using Pair Inr by (simp add: mcp_query_incidents_def)
  qed
qed

text \<open>A request that is no JSON text, and one that asks a question.\<close>

theorem mcp_always_answers_witness:
  "mcp_query_incidents demo_env (Inr ''SELECT * FROM c'') ''2025-01-01T12:00:00'' ''not json''
     (new_processor [])
   = ([(''error'', JStr ''Error querying incidents: Expecting value: line 1 column 1 (char 0)''),
       (''success'', JBool False),
       (''timestamp'', JStr ''2025-01-01T12:00:00'')], new_processor [])
   \<and> map_of (fst (mcp_query_incidents demo_env (Inr ''SELECT * FROM c'') ''2025-01-01T12:00:00''
                     ''{\"arguments\": {\"query\": \"show critical incidents\"}}'' (new_processor [])))
        ''success'' = Some (JBool True)"
proof -
  have "mcp_query_incidents_try demo_env (Inr ''SELECT * FROM c'') ''2025-01-01T12:00:00'' ''not json''
          (new_processor [])
        = (Inl (ValueError ''Expecting value: line 1 column 1 (char 0)''), new_processor [])"
    by (simp add: mcp_query_incidents_try_def demo_env_fields demo_loads_def)
  then have "mcp_query_incidents demo_env (Inr ''SELECT * FROM c'') ''2025-01-01T12:00:00'' ''not json''
     (new_processor [])
   = ([(''error'', JStr ''Error querying incidents: Expecting value: line 1 column 1 (char 0)''),
       (''success'', JBool False),
       (''timestamp'', JStr ''2025-01-01T12:00:00'')], new_processor [])"
    using mcp_always_answers [of demo_env "Inr ''SELECT * FROM c''" "''2025-01-01T12:00:00''"
        "''not json''" "new_processor []"]
    by simp
  then show ?thesis
    by (simp add: demo_mcp_success)
qed

end
